theory Spec2Isabelle
  imports Main "HOL-Library.Word" "HOL-Library.FSet"
begin

unbundle bit_operations_syntax

section \<open>The ACL shim of system/main/shim/acl.cc\<close>

text \<open>
  A shallow embedding of the shadow lists, the connection history, the per-link
  object (\<open>ShimAclConnection\<close> and its classic and LE variants) and the event
  handlers of \<open>shim::legacy::Acl\<close>. Everything a handler does beyond changing
  its own fields (a log line, a closure posted to the main thread, a call into the
  lower \<open>hci::AclManager\<close> or into the link's queue end) is recorded, in program
  order, in the list of effects the handler returns. A failed \<open>ASSERT_LOG\<close>
  and a dereference of a null pointer end the run with a fault.
\<close>

subsection \<open>Addresses\<close>

text \<open>\<open>hci::Address\<close> holds \<open>std::array<uint8_t, 6> address\<close>.\<close>

datatype Address = Address (data0: "8 word") (data1: "8 word") (data2: "8 word")
  (data3: "8 word") (data4: "8 word") (data5: "8 word")

text \<open>
  The enumerations \<open>hci::AddressType\<close> and \<open>hci::FilterAcceptListAddressType\<close>
  are generated from the HCI packet description, which is not part of the sources at
  hand; the constructors are the names acl.cc and the Bluetooth HCI use.
\<close>

datatype AddressType =
  PUBLIC_DEVICE_ADDRESS | RANDOM_DEVICE_ADDRESS | PUBLIC_IDENTITY_ADDRESS | RANDOM_IDENTITY_ADDRESS

datatype FilterAcceptListAddressType = PUBLIC | RANDOM | ANONYMOUS_ADVERTISERS

record AddressWithType =
  GetAddress :: Address
  GetAddressType :: AddressType

text \<open>
  \<open>AddressWithType::ToFilterAcceptListAddressType\<close> lives in hci/address_with_type.h,
  outside the sources at hand; every definition below that needs it takes it as the
  parameter \<open>tofal\<close>.
\<close>

type_synonym tofal_t = "AddressType \<Rightarrow> FilterAcceptListAddressType"

text \<open>
  Field names: the source's trailing underscore is not an Isabelle name, and two records
  cannot share a field name, so a field \<open>x_\<close> of the source is \<open>x\<close> here,
  with a short prefix of its class where the plain name is taken.
\<close>

record ConnectAddressWithType =
  cawt_address :: Address
  cawt_type :: FilterAcceptListAddressType

definition ConnectAddressWithType ::
  "tofal_t \<Rightarrow> AddressWithType \<Rightarrow> ConnectAddressWithType" where
  "ConnectAddressWithType tofal address_with_type =
     \<lparr>cawt_address = GetAddress address_with_type,
      cawt_type = tofal (GetAddressType address_with_type)\<rparr>"

definition IsRpa :: "AddressWithType \<Rightarrow> bool" where
  "IsRpa address_with_type \<longleftrightarrow>
     GetAddressType address_with_type = RANDOM_DEVICE_ADDRESS \<and>
     data5 (GetAddress address_with_type) AND 0xc0 = 0x40"

subsection \<open>Effects\<close>

datatype log_level = ERROR | WARN | INFO | DEBUG

datatype log_arg = ArgNum nat | ArgAddress Address | ArgAddressWithType AddressWithType
  | ArgText string

type_synonym HciHandle = "16 word"
type_synonym PageNumber = "8 word"
type_synonym time_point = nat

datatype Role = CENTRAL | PERIPHERAL

datatype DisconnectReason =
  AUTHENTICATION_FAILURE | REMOTE_USER_TERMINATED_CONNECTION
  | REMOTE_DEVICE_TERMINATED_CONNECTION_LOW_RESOURCES
  | REMOTE_DEVICE_TERMINATED_CONNECTION_POWER_OFF | UNSUPPORTED_REMOTE_OR_LMP_FEATURE
  | PAIRING_WITH_UNIT_KEY_NOT_SUPPORTED | UNACCEPTABLE_CONNECTION_PARAMETERS

text \<open>An \<open>hci::ErrorCode\<close> is one octet; \<open>SUCCESS\<close> is 0.\<close>

type_synonym ErrorCode = "8 word"

definition SUCCESS :: ErrorCode where
  "SUCCESS = 0"

text \<open>The closures handed to \<open>do_in_main_thread\<close>, with the plain values they carry.\<close>

datatype upcall =
  cb_on_send_data_upwards "8 word list"
  | cb_classic_on_disconnected ErrorCode HciHandle ErrorCode
  | cb_le_on_disconnected ErrorCode HciHandle ErrorCode
  | cb_le_on_connected AddressWithType HciHandle Role "16 word" "16 word" "16 word"
      Address Address AddressType bool
  | cb_on_read_remote_supported_features_complete HciHandle "64 word"
  | cb_on_read_remote_extended_features_complete HciHandle PageNumber PageNumber "64 word"

text \<open>Calls into the lower layer: the ACL manager, a connection, a link's queue end.\<close>

datatype lower_call =
  CreateLeConnection AddressWithType bool
  | Disconnect_call HciHandle DisconnectReason
  | ReadRemoteExtendedFeatures HciHandle PageNumber
  | RegisterCallbacks HciHandle
  | QueueRegisterEnqueue HciHandle
  | QueueUnregisterEnqueue HciHandle
  | QueueRegisterDequeue HciHandle
  | QueueUnregisterDequeue HciHandle

text \<open>
  The two descriptors of the connection history, with the arguments of their
  constructors: remote address, creation time, teardown time, handle, locally initiated,
  disconnect reason.
\<close>

datatype ConnectionDescriptor =
  ClassicConnectionDescriptor Address time_point time_point HciHandle bool ErrorCode
  | LeConnectionDescriptor AddressWithType time_point time_point HciHandle bool ErrorCode

fun descriptor_handle :: "ConnectionDescriptor \<Rightarrow> HciHandle" where
  "descriptor_handle (ClassicConnectionDescriptor _ _ _ h _ _) = h"
| "descriptor_handle (LeConnectionDescriptor _ _ _ h _ _) = h"

text \<open>
  Besides the calls that leave the shim, the list of effects records, at their place in
  the program order, the erasure of a link from its map, the push of a descriptor onto
  the connection history and the value given to a promise.
\<close>

datatype effect =
  Log log_level string "log_arg list"
  | PostOnMain upcall
  | Lower lower_call
  | BTM_LogHistory log_arg string string
  | OsiFree "8 word list"
  | MapErase HciHandle
  | HistoryPush ConnectionDescriptor
  | PromiseSetValue bool

text \<open>
  What ends a run: \<open>ASSERT_LOG\<close> and \<open>ASSERT\<close> abort the process when their
  condition is false; \<open>->\<close> on a null \<open>unique_ptr\<close> and \<open>front()\<close> or
  \<open>pop_front()\<close> on an empty container are undefined behaviour.
\<close>

datatype fault =
  AssertFailed string
  | NullDereference
  | EmptyQueueFront

subsection \<open>Shadow lists\<close>

record ShadowAcceptlist =
  max_acceptlist_size :: "8 word"
  acceptlist_set :: "ConnectAddressWithType fset"

definition ShadowAcceptlist_new :: "8 word \<Rightarrow> ShadowAcceptlist" where
  "ShadowAcceptlist_new max_size =
     \<lparr>max_acceptlist_size = max_size, acceptlist_set = {||}\<rparr>"

text \<open>
  \<open>Add\<close>, \<open>Remove\<close>: the returned triple is the \<open>bool\<close> the method returns, the
  list afterwards and the lines logged.
\<close>

definition ShadowAcceptlist_Add ::
  "tofal_t \<Rightarrow> ShadowAcceptlist \<Rightarrow> AddressWithType
     \<Rightarrow> bool \<times> ShadowAcceptlist \<times> effect list" where
  "ShadowAcceptlist_Add tofal l address_with_type =
     (if fcard (acceptlist_set l) = unat (max_acceptlist_size l)
      then (False, l,
            [Log ERROR ''Acceptlist is full size:{}'' [ArgNum (fcard (acceptlist_set l))]])
      else if ConnectAddressWithType tofal address_with_type |\<in>| acceptlist_set l
      then (True, l,
            [Log WARN ''Attempted to add duplicate le address to acceptlist:{}''
               [ArgAddressWithType address_with_type]])
      else (True,
            l\<lparr>acceptlist_set :=
                finsert (ConnectAddressWithType tofal address_with_type) (acceptlist_set l)\<rparr>,
            []))"

definition ShadowAcceptlist_Remove ::
  "tofal_t \<Rightarrow> ShadowAcceptlist \<Rightarrow> AddressWithType
     \<Rightarrow> bool \<times> ShadowAcceptlist \<times> effect list" where
  "ShadowAcceptlist_Remove tofal l address_with_type =
     (if ConnectAddressWithType tofal address_with_type |\<notin>| acceptlist_set l
      then (False, l,
            [Log WARN ''Unknown device being removed from acceptlist:{}''
               [ArgAddressWithType address_with_type]])
      else (True,
            l\<lparr>acceptlist_set :=
                acceptlist_set l |-| {|ConnectAddressWithType tofal address_with_type|}\<rparr>,
            []))"

definition ShadowAcceptlist_IsFull :: "ShadowAcceptlist \<Rightarrow> bool" where
  "ShadowAcceptlist_IsFull l \<longleftrightarrow> fcard (acceptlist_set l) = unat (max_acceptlist_size l)"

definition ShadowAcceptlist_Clear :: "ShadowAcceptlist \<Rightarrow> ShadowAcceptlist" where
  "ShadowAcceptlist_Clear l = l\<lparr>acceptlist_set := {||}\<rparr>"

record ShadowAddressResolutionList =
  max_address_resolution_size :: "8 word"
  address_resolution_set :: "AddressWithType fset"

definition ShadowAddressResolutionList_new :: "8 word \<Rightarrow> ShadowAddressResolutionList" where
  "ShadowAddressResolutionList_new max_size =
     \<lparr>max_address_resolution_size = max_size,
      address_resolution_set = {||}\<rparr>"

definition ShadowAddressResolutionList_Add ::
  "ShadowAddressResolutionList \<Rightarrow> AddressWithType
     \<Rightarrow> bool \<times> ShadowAddressResolutionList \<times> effect list" where
  "ShadowAddressResolutionList_Add l address_with_type =
     (if fcard (address_resolution_set l) = unat (max_address_resolution_size l)
      then (False, l,
            [Log ERROR ''Address Resolution is full size:{}''
               [ArgNum (fcard (address_resolution_set l))]])
      else if address_with_type |\<in>| address_resolution_set l
      then (True, l,
            [Log WARN ''Attempted to add duplicate le address to address_resolution:{}''
               [ArgAddressWithType address_with_type]])
      else (True,
            l\<lparr>address_resolution_set := finsert address_with_type (address_resolution_set l)\<rparr>,
            []))"

definition ShadowAddressResolutionList_Remove ::
  "ShadowAddressResolutionList \<Rightarrow> AddressWithType
     \<Rightarrow> bool \<times> ShadowAddressResolutionList \<times> effect list" where
  "ShadowAddressResolutionList_Remove l address_with_type =
     (if address_with_type |\<notin>| address_resolution_set l
      then (False, l,
            [Log WARN ''Unknown device being removed from address_resolution:{}''
               [ArgAddressWithType address_with_type]])
      else (True,
            l\<lparr>address_resolution_set := address_resolution_set l |-| {|address_with_type|}\<rparr>,
            []))"

definition ShadowAddressResolutionList_IsFull :: "ShadowAddressResolutionList \<Rightarrow> bool" where
  "ShadowAddressResolutionList_IsFull l \<longleftrightarrow>
     fcard (address_resolution_set l) = unat (max_address_resolution_size l)"

subsection \<open>The connection history\<close>

text \<open>
  \<open>FixedQueue<T>::Push\<close>; \<open>max_size\<close> is fixed at construction and given here as
  an argument.
\<close>

definition FixedQueue_Push :: "nat \<Rightarrow> 'a list \<Rightarrow> 'a \<Rightarrow> fault + 'a list" where
  "FixedQueue_Push max_size q element =
     (if length q = max_size
      then (case q of [] \<Rightarrow> Inl EmptyQueueFront | _ # rest \<Rightarrow> Inr (rest @ [element]))
      else Inr (q @ [element]))"

definition kConnectionHistorySize :: nat where
  "kConnectionHistorySize = 40"

subsection \<open>The link object\<close>

definition LowByte :: "16 word \<Rightarrow> 8 word" where
  "LowByte val = ucast (val AND 0xff)"

definition HighByte :: "16 word \<Rightarrow> 8 word" where
  "HighByte val = ucast (drop_bit 8 val)"

text \<open>
  Modelled from the spec: \<open>MakeLegacyBtHdrPacket\<close> (main/shim/helpers.h) is missing
  from the sources; the spec has the buffer handed upward be the preamble followed by the
  raw payload.
\<close>

definition MakeLegacyBtHdrPacket :: "8 word list \<Rightarrow> 8 word list \<Rightarrow> 8 word list" where
  "MakeLegacyBtHdrPacket packet preamble = preamble @ packet"

text \<open>
  Modelled from the spec: the link's end of the lower queue
  (\<open>hci::acl_manager::AclConnection::QueueUpEnd\<close>, os/queue.h) is missing from the
  sources. It holds the enqueue and dequeue registrations the link makes and the inbound
  packets that \<open>TryDequeue\<close> hands out, oldest first.
\<close>

record QueueUpEnd =
  enqueue_registered :: bool
  dequeue_registered :: bool
  inbound :: "8 word list list"

text \<open>
  \<open>ShimAclConnection\<close>. \<open>send_data_upwards\<close> tells whether the function pointer
  is non-null; \<open>queue\<close> holds the payloads of the outbound builders, front first.
\<close>

record ShimAclConnection =
  conn_handle :: HciHandle
  send_data_upwards :: bool
  queue_up_end :: QueueUpEnd
  queue :: "8 word list list"
  is_enqueue_registered :: bool
  is_disconnected :: bool
  conn_creation_time :: time_point

text \<open>The constructor registers the dequeue callback.\<close>

definition ShimAclConnection_new ::
  "HciHandle \<Rightarrow> bool \<Rightarrow> QueueUpEnd \<Rightarrow> time_point \<Rightarrow> ShimAclConnection \<times> effect list" where
  "ShimAclConnection_new h sdu q_end creation =
     (\<lparr>conn_handle = h, send_data_upwards = sdu,
       queue_up_end = q_end\<lparr>dequeue_registered := True\<rparr>,
       queue = [], is_enqueue_registered = False, is_disconnected = False,
       conn_creation_time = creation\<rparr>,
      [Lower (QueueRegisterDequeue h)])"

text \<open>The destructor: the effects logged, or the failed assertion.\<close>

definition ShimAclConnection_destroy ::
  "'a ShimAclConnection_scheme \<Rightarrow> fault + effect list" where
  "ShimAclConnection_destroy c =
     (if \<not> is_disconnected c
      then Inl (AssertFailed ''Shim Acl was not properly disconnected handle:0x%04x'')
      else Inr (if queue c \<noteq> []
                then [Log ERROR ''ACL cleaned up with non-empty queue handle:0x{:04x} stranded_pkts:{}''
                        [ArgNum (unat (conn_handle c)), ArgNum (length (queue c))]]
                else []))"

definition RegisterEnqueue ::
  "'a ShimAclConnection_scheme \<Rightarrow> fault + 'a ShimAclConnection_scheme \<times> effect list" where
  "RegisterEnqueue c =
     (if is_disconnected c
      then Inl (AssertFailed ''Unable to send data over disconnected channel handle:%04x'')
      else if is_enqueue_registered c then Inr (c, [])
      else Inr (c\<lparr>is_enqueue_registered := True,
                   queue_up_end := (queue_up_end c)\<lparr>enqueue_registered := True\<rparr>\<rparr>,
                [Lower (QueueRegisterEnqueue (conn_handle c))]))"

definition UnregisterEnqueue ::
  "'a ShimAclConnection_scheme \<Rightarrow> 'a ShimAclConnection_scheme \<times> effect list" where
  "UnregisterEnqueue c =
     (if \<not> is_enqueue_registered c then (c, [])
      else (c\<lparr>is_enqueue_registered := False,
               queue_up_end := (queue_up_end c)\<lparr>enqueue_registered := False\<rparr>\<rparr>,
            [Lower (QueueUnregisterEnqueue (conn_handle c))]))"

definition EnqueuePacket ::
  "'a ShimAclConnection_scheme \<Rightarrow> 8 word list
     \<Rightarrow> fault + 'a ShimAclConnection_scheme \<times> effect list" where
  "EnqueuePacket c packet = RegisterEnqueue (c\<lparr>queue := queue c @ [packet]\<rparr>)"

text \<open>\<open>handle_enqueue\<close> returns the packet taken from the front.\<close>

definition handle_enqueue ::
  "'a ShimAclConnection_scheme
     \<Rightarrow> fault + 8 word list \<times> 'a ShimAclConnection_scheme \<times> effect list" where
  "handle_enqueue c =
     (case queue c of
        [] \<Rightarrow> Inl EmptyQueueFront
      | packet # rest \<Rightarrow>
          (if rest = [] then Inr (packet, UnregisterEnqueue (c\<lparr>queue := rest\<rparr>))
           else Inr (packet, c\<lparr>queue := rest\<rparr>, [])))"

definition Disconnect ::
  "'a ShimAclConnection_scheme \<Rightarrow> 'a ShimAclConnection_scheme \<times> effect list" where
  "Disconnect c =
     (if is_disconnected c
      then (c, [Log ERROR ''Cannot disconnect ACL multiple times handle:{:04x} creation_time:{}''
                  [ArgNum (unat (conn_handle c)), ArgNum (conn_creation_time c)]])
      else (case UnregisterEnqueue (c\<lparr>is_disconnected := True\<rparr>) of
              (c', unregistered) \<Rightarrow>
                (c'\<lparr>queue_up_end := (queue_up_end c')\<lparr>dequeue_registered := False\<rparr>\<rparr>,
                 unregistered @ [Lower (QueueUnregisterDequeue (conn_handle c))] @
                 (if queue c \<noteq> []
                  then [Log WARN ''ACL disconnect with non-empty queue handle:{:04x} stranded_pkts::{}''
                          [ArgNum (unat (conn_handle c)), ArgNum (length (queue c))]]
                  else []))))"

definition Shutdown ::
  "'a ShimAclConnection_scheme \<Rightarrow> 'a ShimAclConnection_scheme \<times> effect list" where
  "Shutdown c =
     (case Disconnect c of
        (c', effects) \<Rightarrow>
          (c', effects @ [Log INFO ''Shutdown and disconnect ACL connection handle:0x{:04x}''
                            [ArgNum (unat (conn_handle c))]]))"

text \<open>
  \<open>data_ready_callback\<close>. \<open>TryDequeue\<close> returns a null pointer when nothing is
  waiting. \<open>posted\<close> tells whether \<open>do_in_main_thread\<close> returns
  \<open>BT_STATUS_SUCCESS\<close>. The allocation inside \<open>MakeLegacyBtHdrPacket\<close> is taken
  to succeed.
\<close>

definition data_ready_callback ::
  "'a ShimAclConnection_scheme \<Rightarrow> bool
     \<Rightarrow> fault + 'a ShimAclConnection_scheme \<times> effect list" where
  "data_ready_callback c posted =
     (case inbound (queue_up_end c) of
        [] \<Rightarrow> Inl NullDereference
      | packet # rest \<Rightarrow>
          (let len = (word_of_nat (length packet) :: 16 word);
               preamble = [LowByte (conn_handle c), HighByte (conn_handle c),
                           LowByte len, HighByte len];
               p_buf = MakeLegacyBtHdrPacket packet preamble;
               c' = c\<lparr>queue_up_end := (queue_up_end c)\<lparr>inbound := rest\<rparr>\<rparr>
           in if \<not> send_data_upwards c
              then Inr (c', [Log WARN ''Dropping ACL data with no callback'' [], OsiFree p_buf])
              else if \<not> posted
              then Inr (c', [PostOnMain (cb_on_send_data_upwards p_buf), OsiFree p_buf])
              else Inr (c', [PostOnMain (cb_on_send_data_upwards p_buf)])))"

text \<open>The operations on a link that the lower handler runs, and a run of several.\<close>

datatype link_op = Op_EnqueuePacket "8 word list" | Op_handle_enqueue | Op_Disconnect
  | Op_Shutdown

fun link_step ::
  "'a ShimAclConnection_scheme \<Rightarrow> link_op \<Rightarrow> fault + 'a ShimAclConnection_scheme" where
  "link_step c (Op_EnqueuePacket packet) = map_sum id fst (EnqueuePacket c packet)"
| "link_step c Op_handle_enqueue = map_sum id (fst \<circ> snd) (handle_enqueue c)"
| "link_step c Op_Disconnect = Inr (fst (Disconnect c))"
| "link_step c Op_Shutdown = Inr (fst (Shutdown c))"

fun link_run ::
  "'a ShimAclConnection_scheme \<Rightarrow> link_op list \<Rightarrow> fault + 'a ShimAclConnection_scheme" where
  "link_run c [] = Inr c"
| "link_run c (op # ops) =
     (case link_step c op of Inl f \<Rightarrow> Inl f | Inr c' \<Rightarrow> link_run c' ops)"

subsection \<open>The callback table and the main thread\<close>

text \<open>
  \<open>acl_interface_t\<close> and \<open>acl_classic_link_interface_t\<close> are tables of function
  pointers; a field here tells whether the pointer is non-null. Only the callbacks of the
  handlers below are listed; the nested structs \<open>connection.classic\<close>,
  \<open>connection.le\<close> and \<open>link.classic\<close> are flattened into the field names.
\<close>

record acl_classic_link_interface_t =
  on_read_remote_supported_features_complete :: bool
  on_read_remote_extended_features_complete :: bool

record acl_interface_t =
  on_send_data_upwards :: bool
  on_packets_completed :: bool
  connection_classic_on_connected :: bool
  connection_classic_on_failed :: bool
  connection_classic_on_disconnected :: bool
  connection_le_on_connected :: bool
  connection_le_on_failed :: bool
  connection_le_on_disconnected :: bool
  link_classic :: acl_classic_link_interface_t

definition ValidateAclInterface :: "acl_interface_t \<Rightarrow> fault + unit" where
  "ValidateAclInterface i =
     (if \<not> on_send_data_upwards i
      then Inl (AssertFailed ''Must provide to receive data on acl links'')
      else if \<not> on_packets_completed i
      then Inl (AssertFailed ''Must provide to receive completed packet indication'')
      else if \<not> connection_classic_on_connected i
      then Inl (AssertFailed ''Must provide to respond to successful classic connections'')
      else if \<not> connection_classic_on_failed i
      then Inl (AssertFailed ''Must provide to respond when classic connection attempts fail'')
      else if \<not> connection_classic_on_disconnected i
      then Inl (AssertFailed
                  ''Must provide to respond when active classic connection disconnects'')
      else if \<not> connection_le_on_connected i
      then Inl (AssertFailed ''Must provide to respond to successful le connections'')
      else if \<not> connection_le_on_failed i
      then Inl (AssertFailed ''Must provide to respond when le connection attempts fail'')
      else if \<not> connection_le_on_disconnected i
      then Inl (AssertFailed ''Must provide to respond when active le connection disconnects'')
      else Inr ())"

text \<open>The macro \<open>TRY_POSTING_ON_MAIN(cb, ...)\<close>, the closure given as a value.\<close>

definition TRY_POSTING_ON_MAIN :: "bool \<Rightarrow> upcall \<Rightarrow> effect list" where
  "TRY_POSTING_ON_MAIN cb closure =
     (if \<not> cb then [Log WARN ''Dropping ACL event with no callback'' []]
      else [PostOnMain closure])"

subsection \<open>Classic links\<close>

text \<open>
  What the shim reads from the lower \<open>hci::acl_manager::ClassicAclConnection\<close> it
  owns (the class itself is outside the sources at hand).
\<close>

record ClassicAclConnection =
  classic_GetHandle :: HciHandle
  classic_GetAddress :: Address
  classic_locally_initiated :: bool

record ClassicShimAclConnection = ShimAclConnection +
  classic_interface :: acl_classic_link_interface_t
  classic_connection :: ClassicAclConnection

text \<open>
  The feature-read completions. \<open>ReadRemoteExtendedFeatures\<close> takes a
  \<open>uint8_t\<close>, so \<open>page_number + 1\<close> is taken modulo 256.
\<close>

definition OnReadRemoteSupportedFeaturesComplete ::
  "ClassicShimAclConnection \<Rightarrow> 64 word \<Rightarrow> effect list" where
  "OnReadRemoteSupportedFeaturesComplete c features =
     TRY_POSTING_ON_MAIN (on_read_remote_supported_features_complete (classic_interface c))
       (cb_on_read_remote_supported_features_complete (conn_handle c) features) @
     (if features AND push_bit 63 1 \<noteq> 0
      then [Lower (ReadRemoteExtendedFeatures (conn_handle c) 1)]
      else [Log DEBUG ''Device does not support extended features'' []])"

definition OnReadRemoteExtendedFeaturesComplete ::
  "ClassicShimAclConnection \<Rightarrow> PageNumber \<Rightarrow> PageNumber \<Rightarrow> 64 word \<Rightarrow> effect list" where
  "OnReadRemoteExtendedFeaturesComplete c page_number max_page_number features =
     TRY_POSTING_ON_MAIN (on_read_remote_extended_features_complete (classic_interface c))
       (cb_on_read_remote_extended_features_complete (conn_handle c) page_number
          max_page_number features) @
     (if page_number = 0 \<and> \<not> (features AND push_bit 63 1 \<noteq> 0)
      then [Log DEBUG ''Device does not support extended features'' []]
      else if max_page_number \<noteq> 0 \<and> page_number \<noteq> max_page_number
      then [Lower (ReadRemoteExtendedFeatures (conn_handle c) (page_number + 1))]
      else [])"

subsection \<open>LE links\<close>

text \<open>
  What the shim reads from the lower \<open>hci::acl_manager::LeAclConnection\<close> (outside the
  sources at hand). Of the role-specific data only the peripheral's variant carries fields
  the shim looks at.
\<close>

datatype RoleSpecificData =
  DataAsCentral
  | DataAsPeripheral (advertising_set_id: "8 word option") (connected_to_discoverable: bool)

record LeAclConnection =
  le_GetHandle :: HciHandle
  le_GetRemoteAddress :: AddressWithType
  peer_address_with_type :: AddressWithType
  le_GetRole :: Role
  le_locally_initiated :: bool
  interval :: "16 word"
  latency :: "16 word"
  supervision_timeout :: "16 word"
  local_resolvable_private_address :: Address
  peer_resolvable_private_address :: Address
  IsInFilterAcceptList :: bool
  GetRoleSpecificData :: RoleSpecificData
  le_GetAclQueueEnd :: QueueUpEnd

record LeShimAclConnection = ShimAclConnection +
  le_connection :: LeAclConnection

text \<open>
  The constructor: the base is built as \<open>ShimAclConnection_new\<close> builds it, from the
  handle and the queue end of the connection.
\<close>

definition LeShimAclConnection_new ::
  "bool \<Rightarrow> LeAclConnection \<Rightarrow> time_point \<Rightarrow> LeShimAclConnection \<times> effect list" where
  "LeShimAclConnection_new sdu connection creation =
     (case ShimAclConnection_new (le_GetHandle connection) sdu (le_GetAclQueueEnd connection)
             creation of
        (base, effects) \<Rightarrow>
          (ShimAclConnection.extend base
             (LeShimAclConnection.fields connection), effects))"

subsection \<open>The manager\<close>

record impl =
  handle_to_classic_connection_map :: "HciHandle \<rightharpoonup> ClassicShimAclConnection"
  handle_to_le_connection_map :: "HciHandle \<rightharpoonup> LeShimAclConnection"
  connection_history :: "ConnectionDescriptor list"
  shadow_acceptlist :: ShadowAcceptlist
  shadow_address_resolution_list :: ShadowAddressResolutionList

definition impl_new :: "8 word \<Rightarrow> 8 word \<Rightarrow> impl" where
  "impl_new max_acceptlist max_address_resolution =
     \<lparr>handle_to_classic_connection_map = Map.empty,
      handle_to_le_connection_map = Map.empty,
      connection_history = [],
      shadow_acceptlist = ShadowAcceptlist_new max_acceptlist,
      shadow_address_resolution_list = ShadowAddressResolutionList_new max_address_resolution\<rparr>"

record Acl =
  acl_interface :: acl_interface_t
  pimpl :: impl

definition Acl_new :: "acl_interface_t \<Rightarrow> 8 word \<Rightarrow> 8 word \<Rightarrow> fault + Acl" where
  "Acl_new i max_acceptlist max_address_resolution =
     (case ValidateAclInterface i of
        Inl f \<Rightarrow> Inl f
      | Inr _ \<Rightarrow>
          Inr \<lparr>acl_interface = i, pimpl = impl_new max_acceptlist max_address_resolution\<rparr>)"

text \<open>
  \<open>impl::accept_le_connection_from\<close>; the value set on the promise is the effect
  \<open>PromiseSetValue\<close>.
\<close>

definition accept_le_connection_from ::
  "tofal_t \<Rightarrow> impl \<Rightarrow> AddressWithType \<Rightarrow> bool \<Rightarrow> impl \<times> effect list" where
  "accept_le_connection_from tofal p address_with_type is_direct =
     (if ShadowAcceptlist_IsFull (shadow_acceptlist p)
      then (p, [Log ERROR ''Acceptlist is full preventing new Le connection'' [],
                PromiseSetValue False])
      else (case ShadowAcceptlist_Add tofal (shadow_acceptlist p) address_with_type of
              (_, l, added) \<Rightarrow>
                (p\<lparr>shadow_acceptlist := l\<rparr>,
                 added @
                 [PromiseSetValue True,
                  Lower (CreateLeConnection address_with_type is_direct),
                  Log DEBUG ''Allow Le connection from remote:{}''
                    [ArgAddressWithType address_with_type],
                  BTM_LogHistory (ArgAddressWithType address_with_type)
                    ''Allow connection from'' ''Le''])))"

text \<open>
  The disconnected events. \<open>operator[]\<close> on a handle that is not in the map yields a
  null pointer, which the first line dereferences. \<open>erase\<close> runs the destructor of
  the link. \<open>now\<close> is the reading of the system clock. The status arguments of the
  closure are shown before \<open>ToLegacyHciErrorCode\<close>.
\<close>

definition OnClassicLinkDisconnected ::
  "Acl \<Rightarrow> HciHandle \<Rightarrow> ErrorCode \<Rightarrow> time_point \<Rightarrow> fault + Acl \<times> effect list" where
  "OnClassicLinkDisconnected a h reason now =
     (case handle_to_classic_connection_map (pimpl a) h of
        None \<Rightarrow> Inl NullDereference
      | Some link \<Rightarrow>
          (let remote = classic_GetAddress (classic_connection link);
               created = conn_creation_time link;
               locally_initiated = classic_locally_initiated (classic_connection link);
               teardown = now;
               descriptor = ClassicConnectionDescriptor remote created teardown h
                              locally_initiated reason
           in case ShimAclConnection_destroy link of
                Inl f \<Rightarrow> Inl f
              | Inr destroyed \<Rightarrow>
                  (case FixedQueue_Push kConnectionHistorySize (connection_history (pimpl a))
                          descriptor of
                     Inl f \<Rightarrow> Inl f
                   | Inr history \<Rightarrow>
                       Inr (a\<lparr>pimpl := (pimpl a)
                               \<lparr>handle_to_classic_connection_map :=
                                  (handle_to_classic_connection_map (pimpl a))(h := None),
                                connection_history := history\<rparr>\<rparr>,
                            [MapErase h] @ destroyed @
                            TRY_POSTING_ON_MAIN
                              (connection_classic_on_disconnected (acl_interface a))
                              (cb_classic_on_disconnected SUCCESS h reason) @
                            [Log DEBUG ''Disconnected classic link remote:{} handle:{} reason:{}''
                               [ArgAddress remote, ArgNum (unat h), ArgNum (unat reason)],
                             BTM_LogHistory (ArgAddress remote) ''Disconnected''
                               ''classic reason:%s'',
                             HistoryPush descriptor]))))"

definition OnLeLinkDisconnected ::
  "Acl \<Rightarrow> HciHandle \<Rightarrow> ErrorCode \<Rightarrow> time_point \<Rightarrow> fault + Acl \<times> effect list" where
  "OnLeLinkDisconnected a h reason now =
     (case handle_to_le_connection_map (pimpl a) h of
        None \<Rightarrow> Inl NullDereference
      | Some link \<Rightarrow>
          (let remote = le_GetRemoteAddress (le_connection link);
               created = conn_creation_time link;
               locally_initiated = le_locally_initiated (le_connection link);
               teardown = now;
               descriptor = LeConnectionDescriptor remote created teardown h
                              locally_initiated reason
           in case ShimAclConnection_destroy link of
                Inl f \<Rightarrow> Inl f
              | Inr destroyed \<Rightarrow>
                  (case FixedQueue_Push kConnectionHistorySize (connection_history (pimpl a))
                          descriptor of
                     Inl f \<Rightarrow> Inl f
                   | Inr history \<Rightarrow>
                       Inr (a\<lparr>pimpl := (pimpl a)
                               \<lparr>handle_to_le_connection_map :=
                                  (handle_to_le_connection_map (pimpl a))(h := None),
                                connection_history := history\<rparr>\<rparr>,
                            [MapErase h] @ destroyed @
                            TRY_POSTING_ON_MAIN
                              (connection_le_on_disconnected (acl_interface a))
                              (cb_le_on_disconnected SUCCESS h reason) @
                            [Log DEBUG ''Disconnected le link remote:{} handle:{} reason:{}''
                               [ArgAddressWithType remote, ArgNum (unat h),
                                ArgNum (unat reason)],
                             BTM_LogHistory (ArgAddressWithType remote) ''Disconnected''
                               ''Le reason:%s'',
                             HistoryPush descriptor]))))"

text \<open>
  \<open>Acl::OnLeConnectSuccess\<close>. \<open>emplace\<close> leaves the map alone when the handle is
  already a key; the link just built is then destroyed while its disconnected latch is
  clear, and its destructor's assertion fails. The addresses and the role in the closure
  are shown before their conversion to the legacy types.
\<close>

definition OnLeConnectSuccess ::
  "tofal_t \<Rightarrow> Acl \<Rightarrow> AddressWithType \<Rightarrow> LeAclConnection \<Rightarrow> time_point
     \<Rightarrow> fault + Acl \<times> effect list" where
  "OnLeConnectSuccess tofal a address_with_type connection now =
     (let h = le_GetHandle connection;
          peer = peer_address_with_type connection;
          connection_role = le_GetRole connection;
          locally_initiated = le_locally_initiated connection;
          can_read_discoverable_characteristics =
            (case GetRoleSpecificData connection of
               DataAsPeripheral _ discoverable \<Rightarrow> discoverable
             | DataAsCentral \<Rightarrow> True)
      in case LeShimAclConnection_new (on_send_data_upwards (acl_interface a)) connection now of
           (link, constructed) \<Rightarrow>
             (case handle_to_le_connection_map (pimpl a) h of
                Some _ \<Rightarrow>
                  Inl (AssertFailed ''Shim Acl was not properly disconnected handle:0x%04x'')
              | None \<Rightarrow>
                  (case (if IsRpa address_with_type
                         then (case ShadowAcceptlist_Remove tofal (shadow_acceptlist (pimpl a))
                                      peer of
                                 (_, l, removed) \<Rightarrow>
                                   (l, Log DEBUG ''Connection address is rpa:{} identity_addr:{}''
                                         [ArgAddressWithType address_with_type,
                                          ArgAddressWithType peer] # removed))
                         else (case ShadowAcceptlist_Remove tofal (shadow_acceptlist (pimpl a))
                                      address_with_type of
                                 (_, l, removed) \<Rightarrow>
                                   (l, Log DEBUG ''Connection address is not rpa addr:{}''
                                         [ArgAddressWithType address_with_type] # removed))) of
                     (acceptlist, removal) \<Rightarrow>
                       (let a' = a\<lparr>pimpl := (pimpl a)
                                   \<lparr>handle_to_le_connection_map :=
                                      (handle_to_le_connection_map (pimpl a))(h \<mapsto> link),
                                    shadow_acceptlist := acceptlist\<rparr>\<rparr>;
                            registered = constructed @ [Lower (RegisterCallbacks h)] @ removal
                        in if \<not> IsInFilterAcceptList (le_connection link) \<and>
                              connection_role = CENTRAL
                           then Inr (a', registered @
                                  [Lower (Disconnect_call h REMOTE_USER_TERMINATED_CONNECTION),
                                   Log INFO ''Disconnected ACL after connection canceled'' [],
                                   BTM_LogHistory (ArgAddressWithType address_with_type)
                                     ''Connection canceled'' ''Le''])
                           else Inr (a', registered @
                                  TRY_POSTING_ON_MAIN (connection_le_on_connected (acl_interface a))
                                    (cb_le_on_connected address_with_type h connection_role
                                       (interval connection) (latency connection)
                                       (supervision_timeout connection)
                                       (local_resolvable_private_address connection)
                                       (peer_resolvable_private_address connection)
                                       (GetAddressType (peer_address_with_type connection))
                                       can_read_discoverable_characteristics) @
                                  [Log DEBUG
                                     ''Connection successful le remote:{} handle:{} initiator:{}''
                                     [ArgAddressWithType address_with_type, ArgNum (unat h),
                                      ArgText (if locally_initiated then ''local''
                                               else ''remote'')],
                                   BTM_LogHistory (ArgAddressWithType address_with_type)
                                     ''Connection successful'' ''Le''])))))"

section \<open>Notions the statements use\<close>

text \<open>The calls into the lower layer and the closures posted, in the order made.\<close>

fun lower_calls :: "effect list \<Rightarrow> lower_call list" where
  "lower_calls [] = []"
| "lower_calls (Lower l # es) = l # lower_calls es"
| "lower_calls (_ # es) = lower_calls es"

fun posted_closures :: "effect list \<Rightarrow> upcall list" where
  "posted_closures [] = []"
| "posted_closures (PostOnMain u # es) = u # posted_closures es"
| "posted_closures (_ # es) = posted_closures es"

definition effects_of :: "fault + 'a \<times> effect list \<Rightarrow> effect list" where
  "effects_of r = (case r of Inl _ \<Rightarrow> [] | Inr (_, effects) \<Rightarrow> effects)"

fun is_on_disconnected :: "HciHandle \<Rightarrow> effect \<Rightarrow> bool" where
  "is_on_disconnected h (PostOnMain (cb_classic_on_disconnected _ h' _)) = (h' = h)"
| "is_on_disconnected h (PostOnMain (cb_le_on_disconnected _ h' _)) = (h' = h)"
| "is_on_disconnected h _ = False"

fun is_history_push :: "HciHandle \<Rightarrow> effect \<Rightarrow> bool" where
  "is_history_push h (HistoryPush d) = (descriptor_handle d = h)"
| "is_history_push h _ = False"

text \<open>
  \<open>posted_after_push\<close>: no closure \<open>on_disconnected\<close> for the handle is posted
  before a history entry for the handle has been pushed. \<open>pushed_after_post\<close>: no
  history entry for the handle is pushed before \<open>on_disconnected\<close> for the handle has
  been posted.
\<close>

fun posted_after_push :: "HciHandle \<Rightarrow> effect list \<Rightarrow> bool" where
  "posted_after_push h [] = True"
| "posted_after_push h (e # es) =
     (if is_history_push h e then True
      else if is_on_disconnected h e then False
      else posted_after_push h es)"

fun pushed_after_post :: "HciHandle \<Rightarrow> effect list \<Rightarrow> bool" where
  "pushed_after_post h [] = True"
| "pushed_after_post h (e # es) =
     (if is_on_disconnected h e then True
      else if is_history_push h e then False
      else pushed_after_post h es)"

text \<open>
  The peer identity that \<open>OnLeConnectSuccess\<close> removes from the shadow accept list.
\<close>

definition le_identity :: "AddressWithType \<Rightarrow> LeAclConnection \<Rightarrow> AddressWithType" where
  "le_identity address_with_type connection =
     (if IsRpa address_with_type then peer_address_with_type connection else address_with_type)"

text \<open>
  The enqueue registration: present at the queue end exactly when the FIFO is non-empty
  and the link is not disconnected, and mirrored by the link's own latch.
\<close>

definition enqueue_registration_inv :: "'a ShimAclConnection_scheme \<Rightarrow> bool" where
  "enqueue_registration_inv c \<longleftrightarrow>
     (enqueue_registered (queue_up_end c) \<longleftrightarrow> queue c \<noteq> [] \<and> \<not> is_disconnected c) \<and>
     (is_enqueue_registered c \<longleftrightarrow> enqueue_registered (queue_up_end c))"

text \<open>\<open>Add\<close> followed by \<open>Remove\<close> of the same entry: the list afterwards.\<close>

definition ShadowAcceptlist_Add_Remove ::
  "tofal_t \<Rightarrow> ShadowAcceptlist \<Rightarrow> AddressWithType \<Rightarrow> ShadowAcceptlist" where
  "ShadowAcceptlist_Add_Remove tofal l x =
     fst (snd (ShadowAcceptlist_Remove tofal (fst (snd (ShadowAcceptlist_Add tofal l x))) x))"

definition ShadowAddressResolutionList_Add_Remove ::
  "ShadowAddressResolutionList \<Rightarrow> AddressWithType \<Rightarrow> ShadowAddressResolutionList" where
  "ShadowAddressResolutionList_Add_Remove l x =
     fst (snd (ShadowAddressResolutionList_Remove
                 (fst (snd (ShadowAddressResolutionList_Add l x))) x))"

subsection \<open>Concrete inputs\<close>

text \<open>
  Modelled from the spec: \<open>ToFilterAcceptListAddressType\<close> (hci/address_with_type.h)
  is missing from the sources; the spec keys the filter accept list on the address and a
  type that is public or random. The concrete runs below use this conversion; the general
  statements hold for any.
\<close>

definition ToFilterAcceptListAddressType :: tofal_t where
  "ToFilterAcceptListAddressType t =
     (case t of
        PUBLIC_DEVICE_ADDRESS \<Rightarrow> PUBLIC
      | PUBLIC_IDENTITY_ADDRESS \<Rightarrow> PUBLIC
      | RANDOM_DEVICE_ADDRESS \<Rightarrow> RANDOM
      | RANDOM_IDENTITY_ADDRESS \<Rightarrow> RANDOM)"

definition peer_A :: AddressWithType where
  "peer_A = \<lparr>GetAddress = Address 0x11 0x22 0x33 0x44 0x55 0x66,
            GetAddressType = PUBLIC_DEVICE_ADDRESS\<rparr>"

definition peer_B_rpa :: AddressWithType where
  "peer_B_rpa = \<lparr>GetAddress = Address 0x01 0x02 0x03 0x04 0x05 0x4b,
                GetAddressType = RANDOM_DEVICE_ADDRESS\<rparr>"

definition peer_B_identity :: AddressWithType where
  "peer_B_identity = \<lparr>GetAddress = Address 0xb1 0xb2 0xb3 0xb4 0xb5 0xb6,
                     GetAddressType = PUBLIC_IDENTITY_ADDRESS\<rparr>"

definition peer_C :: AddressWithType where
  "peer_C = \<lparr>GetAddress = Address 0xc1 0xc2 0xc3 0xc4 0xc5 0xc6,
            GetAddressType = PUBLIC_DEVICE_ADDRESS\<rparr>"

definition fresh_queue_end :: QueueUpEnd where
  "fresh_queue_end = \<lparr>enqueue_registered = False, dequeue_registered = False, inbound = []\<rparr>"

definition open_link :: ShimAclConnection where
  "open_link = fst (ShimAclConnection_new 0x0040 True fresh_queue_end 1000)"

definition closed_link :: ShimAclConnection where
  "closed_link = fst (Disconnect open_link)"

definition receiving_link :: ShimAclConnection where
  "receiving_link =
     fst (ShimAclConnection_new 0x0123 True
            (fresh_queue_end\<lparr>inbound := [[0xaa, 0xbb, 0xcc, 0xdd, 0xee]]\<rparr>) 1000)"

definition all_callbacks :: acl_interface_t where
  "all_callbacks =
     \<lparr>on_send_data_upwards = True, on_packets_completed = True,
      connection_classic_on_connected = True, connection_classic_on_failed = True,
      connection_classic_on_disconnected = True, connection_le_on_connected = True,
      connection_le_on_failed = True, connection_le_on_disconnected = True,
      link_classic = \<lparr>on_read_remote_supported_features_complete = True,
                      on_read_remote_extended_features_complete = True\<rparr>\<rparr>"

definition closed_classic_link :: ClassicShimAclConnection where
  "closed_classic_link =
     \<lparr>conn_handle = 0x0010, send_data_upwards = True,
      queue_up_end = fresh_queue_end, queue = [], is_enqueue_registered = False,
      is_disconnected = True, conn_creation_time = 1000,
      classic_interface = link_classic all_callbacks,
      classic_connection =
        \<lparr>classic_GetHandle = 0x0010,
         classic_GetAddress = Address 0xa1 0xa2 0xa3 0xa4 0xa5 0xa6,
         classic_locally_initiated = True\<rparr>\<rparr>"

definition le_connection_A :: LeAclConnection where
  "le_connection_A =
     \<lparr>le_GetHandle = 0x0040, le_GetRemoteAddress = peer_A, peer_address_with_type = peer_A,
      le_GetRole = CENTRAL, le_locally_initiated = True, interval = 24, latency = 0,
      supervision_timeout = 400,
      local_resolvable_private_address = Address 0 0 0 0 0 0,
      peer_resolvable_private_address = Address 0 0 0 0 0 0,
      IsInFilterAcceptList = True, GetRoleSpecificData = DataAsCentral,
      le_GetAclQueueEnd = fresh_queue_end\<rparr>"

definition le_connection_B :: LeAclConnection where
  "le_connection_B =
     \<lparr>le_GetHandle = 0x0041, le_GetRemoteAddress = peer_B_rpa,
      peer_address_with_type = peer_B_identity,
      le_GetRole = CENTRAL, le_locally_initiated = True, interval = 24, latency = 0,
      supervision_timeout = 400,
      local_resolvable_private_address = Address 0 0 0 0 0 0,
      peer_resolvable_private_address = Address 0x01 0x02 0x03 0x04 0x05 0x4b,
      IsInFilterAcceptList = False, GetRoleSpecificData = DataAsCentral,
      le_GetAclQueueEnd = fresh_queue_end\<rparr>"

definition closed_le_link :: LeShimAclConnection where
  "closed_le_link =
     \<lparr>conn_handle = 0x0021, send_data_upwards = True,
      queue_up_end = fresh_queue_end, queue = [], is_enqueue_registered = False,
      is_disconnected = True, conn_creation_time = 1500,
      le_connection = le_connection_A\<lparr>le_GetHandle := 0x0021\<rparr>\<rparr>"

text \<open>
  A manager with one classic link (handle 0x0010) and one LE link (handle 0x0021), both
  already disconnected by their \<open>OnDisconnection\<close>, an empty history, and a shadow
  accept list of capacity 2 that holds the entries of A and of B's identity.
\<close>

definition example_acl :: Acl where
  "example_acl =
     \<lparr>acl_interface = all_callbacks,
      pimpl =
        \<lparr>handle_to_classic_connection_map = [0x0010 \<mapsto> closed_classic_link],
         handle_to_le_connection_map = [0x0021 \<mapsto> closed_le_link],
         connection_history = [],
         shadow_acceptlist =
           \<lparr>max_acceptlist_size = 2,
            acceptlist_set =
              {|ConnectAddressWithType ToFilterAcceptListAddressType peer_A,
                ConnectAddressWithType ToFilterAcceptListAddressType peer_B_identity|}\<rparr>,
         shadow_address_resolution_list = ShadowAddressResolutionList_new 2\<rparr>\<rparr>"

section \<open>Auxiliary facts\<close>

lemma lower_calls_append [simp]: "lower_calls (xs @ ys) = lower_calls xs @ lower_calls ys"
  by (induction xs rule: lower_calls.induct) simp_all

lemma posted_closures_append [simp]:
  "posted_closures (xs @ ys) = posted_closures xs @ posted_closures ys"
  by (induction xs rule: posted_closures.induct) simp_all

lemma lower_calls_TRY_POSTING [simp]: "lower_calls (TRY_POSTING_ON_MAIN cb u) = []"
  by (simp add: TRY_POSTING_ON_MAIN_def)

lemma posted_closures_TRY_POSTING [simp]:
  "posted_closures (TRY_POSTING_ON_MAIN cb u) = (if cb then [u] else [])"
  by (simp add: TRY_POSTING_ON_MAIN_def)

lemma validated_callbacks:
  "ValidateAclInterface i = Inr () \<Longrightarrow>
     connection_le_on_connected i \<and> connection_le_on_disconnected i \<and>
     connection_classic_on_disconnected i \<and> on_send_data_upwards i"
  by (simp add: ValidateAclInterface_def split: if_splits)

text \<open>The constructor returns only with a validated table, no link and empty lists.\<close>

lemma Acl_new_validated:
  assumes "Acl_new i max_acceptlist max_address_resolution = Inr a"
  shows "ValidateAclInterface (acl_interface a) = Inr () \<and>
         handle_to_classic_connection_map (pimpl a) = Map.empty \<and>
         handle_to_le_connection_map (pimpl a) = Map.empty \<and>
         acceptlist_set (shadow_acceptlist (pimpl a)) = {||}"
proof (cases "ValidateAclInterface i")
  case (Inl f)
  with assms show ?thesis by (simp add: Acl_new_def)
next
  case (Inr u)
  with assms show ?thesis
    by (auto simp: Acl_new_def impl_new_def ShadowAcceptlist_new_def)
qed

lemma all_callbacks_valid: "ValidateAclInterface all_callbacks = Inr ()"
  by (simp add: ValidateAclInterface_def all_callbacks_def)

lemma link_step_inv:
  assumes "enqueue_registration_inv c" and "link_step c op = Inr c'"
  shows "enqueue_registration_inv c'"
proof (cases op)
  case (Op_EnqueuePacket packet)
  with assms show ?thesis
    by (auto simp: enqueue_registration_inv_def EnqueuePacket_def RegisterEnqueue_def
        split: if_splits)
next
  case Op_handle_enqueue
  with assms show ?thesis
    by (auto simp: enqueue_registration_inv_def handle_enqueue_def UnregisterEnqueue_def
        split: if_splits list.splits)
next
  case Op_Disconnect
  with assms show ?thesis
    by (auto simp: enqueue_registration_inv_def Disconnect_def UnregisterEnqueue_def
        split: if_splits)
next
  case Op_Shutdown
  with assms show ?thesis
    by (auto simp: enqueue_registration_inv_def Shutdown_def Disconnect_def
        UnregisterEnqueue_def split: if_splits)
qed

lemma link_run_inv:
  "enqueue_registration_inv c \<Longrightarrow> link_run c ops = Inr c' \<Longrightarrow> enqueue_registration_inv c'"
proof (induction ops arbitrary: c)
  case Nil
  then show ?case by simp
next
  case (Cons op ops)
  then show ?case
    by (auto split: sum.splits dest: link_step_inv)
qed

text \<open>A link satisfies the invariant as its constructor leaves it.\<close>

lemma new_link_inv:
  "\<not> enqueue_registered q_end \<Longrightarrow>
     enqueue_registration_inv (fst (ShimAclConnection_new h sdu q_end created))"
  by (simp add: ShimAclConnection_new_def enqueue_registration_inv_def)

lemma new_le_link_inv:
  "\<not> enqueue_registered (le_GetAclQueueEnd connection) \<Longrightarrow>
     enqueue_registration_inv (fst (LeShimAclConnection_new sdu connection created))"
  by (simp add: LeShimAclConnection_new_def ShimAclConnection_new_def
      enqueue_registration_inv_def ShimAclConnection.defs)

lemma LowByte_unat: "unat (LowByte v) = unat v mod 256"
proof -
  have m: "(0xff :: nat) = mask 8" by (simp add: mask_eq_exp_minus_1)
  have "unat (LowByte v) = take_bit 8 (unat v AND 0xff)"
    by (simp add: LowByte_def unsigned_ucast_eq unsigned_and_eq)
  also have "\<dots> = take_bit 8 (take_bit 8 (unat v))"
    unfolding m by (simp only: take_bit_eq_mask)
  finally show ?thesis by (simp add: take_bit_eq_mod)
qed

lemma HighByte_unat: "unat (HighByte v) = unat v div 256"
proof -
  have "unat v < 2 ^ 16" using unsigned_less [of v] by simp
  then have lt: "unat v div 256 < 256" by simp
  have "unat (HighByte v) = take_bit 8 (drop_bit 8 (unat v))"
    by (simp add: HighByte_def unsigned_ucast_eq unat_drop_bit_eq)
  also have "\<dots> = (unat v div 256) mod 256"
    by (simp add: take_bit_eq_mod drop_bit_eq_div)
  finally show ?thesis using lt by simp
qed

lemma LowByte_of_nat: "LowByte w = word_of_nat (unat w mod 256)"
proof -
  have "LowByte w = word_of_nat (unat (LowByte w))" by simp
  then show ?thesis by (simp only: LowByte_unat)
qed

lemma HighByte_of_nat: "HighByte w = word_of_nat (unat w div 256)"
proof -
  have "HighByte w = word_of_nat (unat (HighByte w))" by simp
  then show ?thesis by (simp only: HighByte_unat)
qed

lemma LowByte_length: "LowByte (word_of_nat n) = word_of_nat (n mod 256)"
  by (simp add: LowByte_of_nat unat_of_nat mod_mod_cancel)

lemma div_mod_256: "(n mod 65536) div 256 = (n div 256) mod (256::nat)"
proof -
  have "n mod (256 * 256) = 256 * (n div 256 mod 256) + n mod 256"
    by (rule mod_mult2_eq)
  then show ?thesis by simp
qed

lemma HighByte_length: "HighByte (word_of_nat n) = word_of_nat (n div 256)"
  by (simp add: HighByte_of_nat unat_of_nat div_mod_256 word_of_nat_eq_iff take_bit_eq_mod)

lemma preamble_bytes:
  "[LowByte h, HighByte h, LowByte (word_of_nat n), HighByte (word_of_nat n)] =
   [word_of_nat (unat h mod 256), word_of_nat (unat h div 256),
    word_of_nat (n mod 256), word_of_nat (n div 256)]"
proof -
  have "LowByte (word_of_nat n) = word_of_nat (n mod 256)" by (rule LowByte_length)
  moreover have "HighByte (word_of_nat n) = word_of_nat (n div 256)" by (rule HighByte_length)
  moreover have "LowByte h = word_of_nat (unat h mod 256)" by (rule LowByte_of_nat)
  moreover have "HighByte h = word_of_nat (unat h div 256)" by (rule HighByte_of_nat)
  ultimately show ?thesis by (simp only:)
qed

lemma Remove_set:
  "acceptlist_set (fst (snd (ShadowAcceptlist_Remove tofal l x))) =
     acceptlist_set l |-| {|ConnectAddressWithType tofal x|}"
  by (auto simp: ShadowAcceptlist_Remove_def)

lemma Remove_effects [simp]:
  "lower_calls (snd (snd (ShadowAcceptlist_Remove tofal l x))) = [] \<and>
   posted_closures (snd (snd (ShadowAcceptlist_Remove tofal l x))) = []"
  by (simp add: ShadowAcceptlist_Remove_def)

lemma push_history:
  "\<exists>q'. FixedQueue_Push kConnectionHistorySize q d = Inr q' \<and> last q' = d"
  by (cases q) (auto simp: FixedQueue_Push_def kConnectionHistorySize_def)

lemma OnClassicLinkDisconnected_result:
  assumes "handle_to_classic_connection_map (pimpl a) h = Some link"
    and "is_disconnected link"
    and "FixedQueue_Push kConnectionHistorySize (connection_history (pimpl a))
           (ClassicConnectionDescriptor (classic_GetAddress (classic_connection link))
             (conn_creation_time link) now h
             (classic_locally_initiated (classic_connection link)) reason) = Inr history"
  shows "OnClassicLinkDisconnected a h reason now =
     Inr (a\<lparr>pimpl := (pimpl a)
             \<lparr>handle_to_classic_connection_map :=
                (handle_to_classic_connection_map (pimpl a))(h := None),
              connection_history := history\<rparr>\<rparr>,
          [MapErase h] @
          (if queue link \<noteq> []
           then [Log ERROR ''ACL cleaned up with non-empty queue handle:0x{:04x} stranded_pkts:{}''
                        [ArgNum (unat (conn_handle link)), ArgNum (length (queue link))]]
           else []) @
          TRY_POSTING_ON_MAIN (connection_classic_on_disconnected (acl_interface a))
            (cb_classic_on_disconnected SUCCESS h reason) @
          [Log DEBUG ''Disconnected classic link remote:{} handle:{} reason:{}''
             [ArgAddress (classic_GetAddress (classic_connection link)), ArgNum (unat h),
              ArgNum (unat reason)],
           BTM_LogHistory (ArgAddress (classic_GetAddress (classic_connection link)))
             ''Disconnected'' ''classic reason:%s'',
           HistoryPush (ClassicConnectionDescriptor (classic_GetAddress (classic_connection link))
             (conn_creation_time link) now h
             (classic_locally_initiated (classic_connection link)) reason)])"
  unfolding OnClassicLinkDisconnected_def Let_def ShimAclConnection_destroy_def
  by (simp only: assms option.case sum.case if_False if_True not_True_eq_False)

lemma OnLeLinkDisconnected_result:
  assumes "handle_to_le_connection_map (pimpl a) h = Some link"
    and "is_disconnected link"
    and "FixedQueue_Push kConnectionHistorySize (connection_history (pimpl a))
           (LeConnectionDescriptor (le_GetRemoteAddress (le_connection link))
             (conn_creation_time link) now h
             (le_locally_initiated (le_connection link)) reason) = Inr history"
  shows "OnLeLinkDisconnected a h reason now =
     Inr (a\<lparr>pimpl := (pimpl a)
             \<lparr>handle_to_le_connection_map :=
                (handle_to_le_connection_map (pimpl a))(h := None),
              connection_history := history\<rparr>\<rparr>,
          [MapErase h] @
          (if queue link \<noteq> []
           then [Log ERROR ''ACL cleaned up with non-empty queue handle:0x{:04x} stranded_pkts:{}''
                        [ArgNum (unat (conn_handle link)), ArgNum (length (queue link))]]
           else []) @
          TRY_POSTING_ON_MAIN (connection_le_on_disconnected (acl_interface a))
            (cb_le_on_disconnected SUCCESS h reason) @
          [Log DEBUG ''Disconnected le link remote:{} handle:{} reason:{}''
             [ArgAddressWithType (le_GetRemoteAddress (le_connection link)), ArgNum (unat h),
              ArgNum (unat reason)],
           BTM_LogHistory (ArgAddressWithType (le_GetRemoteAddress (le_connection link)))
             ''Disconnected'' ''Le reason:%s'',
           HistoryPush (LeConnectionDescriptor (le_GetRemoteAddress (le_connection link))
             (conn_creation_time link) now h
             (le_locally_initiated (le_connection link)) reason)])"
  unfolding OnLeLinkDisconnected_def Let_def ShimAclConnection_destroy_def
  by (simp only: assms option.case sum.case if_False if_True not_True_eq_False)

text \<open>The shape of the effects of both handlers, and what follows from it.\<close>

lemma disconnected_trace:
  assumes "effects = [MapErase h] @ (if stranded then [Log ERROR m1 args1] else []) @
             TRY_POSTING_ON_MAIN True u @
             [Log DEBUG m2 args2, BTM_LogHistory x m3 m4, HistoryPush d]"
    and "is_on_disconnected h (PostOnMain u)"
    and "descriptor_handle d = h"
  shows "posted_closures effects = [u] \<and>
         length (filter (is_on_disconnected h) effects) = 1 \<and>
         length (filter (is_history_push h) effects) = 1 \<and>
         pushed_after_post h effects \<and> \<not> posted_after_push h effects \<and>
         hd effects = MapErase h \<and> last effects = HistoryPush d"
  using assms by (cases stranded) (simp_all add: TRY_POSTING_ON_MAIN_def)

section \<open>The shadow lists\<close>

text \<open>
  C9, as amended: for every shadow list (accept list or address-resolution list) and
  every entry that is not yet in it, \<open>Add\<close> followed by \<open>Remove\<close> of that entry
  leaves the list exactly as it was. (For an entry already present \<open>Add\<close> changes
  nothing and \<open>Remove\<close> then takes the entry out.)
\<close>

theorem add_remove_restores_when_absent:
  "(ConnectAddressWithType tofal x |\<notin>| acceptlist_set l \<longrightarrow>
      ShadowAcceptlist_Add_Remove tofal l x = l) \<and>
   (x |\<notin>| address_resolution_set r \<longrightarrow>
      ShadowAddressResolutionList_Add_Remove r x = r)"
  by (simp add: ShadowAcceptlist_Add_Remove_def ShadowAcceptlist_Add_def
      ShadowAcceptlist_Remove_def ShadowAddressResolutionList_Add_Remove_def
      ShadowAddressResolutionList_Add_def ShadowAddressResolutionList_Remove_def)

text \<open>
  C9 as stated fails on a duplicate: with A already in a list of capacity 2, adding A and
  removing A ends with the empty list, in both kinds of list.
\<close>

theorem add_remove_duplicate_counterexample:
  "ShadowAcceptlist_Add_Remove ToFilterAcceptListAddressType
     \<lparr>max_acceptlist_size = 2,
      acceptlist_set = {|ConnectAddressWithType ToFilterAcceptListAddressType peer_A|}\<rparr> peer_A
   = \<lparr>max_acceptlist_size = 2, acceptlist_set = {||}\<rparr> \<and>
   \<lparr>max_acceptlist_size = 2, acceptlist_set = {||}\<rparr> \<noteq>
   \<lparr>max_acceptlist_size = 2,
    acceptlist_set = {|ConnectAddressWithType ToFilterAcceptListAddressType peer_A|}\<rparr> \<and>
   ShadowAddressResolutionList_Add_Remove
     \<lparr>max_address_resolution_size = 2, address_resolution_set = {|peer_A|}\<rparr> peer_A
   = \<lparr>max_address_resolution_size = 2, address_resolution_set = {||}\<rparr> \<and>
   \<lparr>max_address_resolution_size = 2, address_resolution_set = {||}\<rparr> \<noteq>
   \<lparr>max_address_resolution_size = 2, address_resolution_set = {|peer_A|}\<rparr>"
  by (simp add: ShadowAcceptlist_Add_Remove_def ShadowAcceptlist_Add_def
      ShadowAcceptlist_Remove_def ShadowAddressResolutionList_Add_Remove_def
      ShadowAddressResolutionList_Add_def ShadowAddressResolutionList_Remove_def
      fcard_finsert_if fempty_not_finsert)

theorem add_remove_restores_when_absent_witness:
  "ConnectAddressWithType ToFilterAcceptListAddressType peer_C |\<notin>|
     {|ConnectAddressWithType ToFilterAcceptListAddressType peer_A|} \<and>
   ShadowAcceptlist_Add_Remove ToFilterAcceptListAddressType
     \<lparr>max_acceptlist_size = 2,
      acceptlist_set = {|ConnectAddressWithType ToFilterAcceptListAddressType peer_A|}\<rparr> peer_C
   = \<lparr>max_acceptlist_size = 2,
      acceptlist_set = {|ConnectAddressWithType ToFilterAcceptListAddressType peer_A|}\<rparr> \<and>
   peer_C |\<notin>| {|peer_A|} \<and>
   ShadowAddressResolutionList_Add_Remove
     \<lparr>max_address_resolution_size = 2, address_resolution_set = {|peer_A|}\<rparr> peer_C
   = \<lparr>max_address_resolution_size = 2, address_resolution_set = {|peer_A|}\<rparr>"
proof -
  let ?l = "\<lparr>max_acceptlist_size = 2,
      acceptlist_set = {|ConnectAddressWithType ToFilterAcceptListAddressType peer_A|}\<rparr>"
  let ?r = "\<lparr>max_address_resolution_size = 2, address_resolution_set = {|peer_A|}\<rparr>"
  have a: "ConnectAddressWithType ToFilterAcceptListAddressType peer_C |\<notin>| acceptlist_set ?l"
    by (simp add: ConnectAddressWithType_def peer_A_def peer_C_def)
  have b: "peer_C |\<notin>| address_resolution_set ?r"
    by (simp add: peer_A_def peer_C_def)
  from add_remove_restores_when_absent
         [of ToFilterAcceptListAddressType peer_C ?l ?r] a b
  show ?thesis by simp
qed

text \<open>
  C10: on a shadow list (accept list or address-resolution list) whose size equals its
  capacity, \<open>Add\<close> returns \<open>false\<close>, logs that the list is full and leaves the list
  alone, whatever the entry is, so also for an entry that is already a member: the
  capacity is looked at before the membership.
\<close>

theorem add_on_full_list_rejected:
  "(ShadowAcceptlist_IsFull l \<longrightarrow>
      ShadowAcceptlist_Add tofal l x =
        (False, l,
         [Log ERROR ''Acceptlist is full size:{}'' [ArgNum (fcard (acceptlist_set l))]])) \<and>
   (ShadowAddressResolutionList_IsFull r \<longrightarrow>
      ShadowAddressResolutionList_Add r x =
        (False, r,
         [Log ERROR ''Address Resolution is full size:{}''
            [ArgNum (fcard (address_resolution_set r))]]))"
  by (simp add: ShadowAcceptlist_IsFull_def ShadowAcceptlist_Add_def
      ShadowAddressResolutionList_IsFull_def ShadowAddressResolutionList_Add_def)

theorem add_on_full_list_rejected_witness:
  "ShadowAcceptlist_IsFull
     \<lparr>max_acceptlist_size = 1,
      acceptlist_set = {|ConnectAddressWithType ToFilterAcceptListAddressType peer_A|}\<rparr> \<and>
   ConnectAddressWithType ToFilterAcceptListAddressType peer_A |\<in>|
     {|ConnectAddressWithType ToFilterAcceptListAddressType peer_A|} \<and>
   fst (ShadowAcceptlist_Add ToFilterAcceptListAddressType
          \<lparr>max_acceptlist_size = 1,
           acceptlist_set = {|ConnectAddressWithType ToFilterAcceptListAddressType peer_A|}\<rparr>
          peer_A) = False \<and>
   ShadowAddressResolutionList_IsFull
     \<lparr>max_address_resolution_size = 1, address_resolution_set = {|peer_A|}\<rparr> \<and>
   peer_A |\<in>| {|peer_A|} \<and>
   fst (ShadowAddressResolutionList_Add
          \<lparr>max_address_resolution_size = 1, address_resolution_set = {|peer_A|}\<rparr> peer_A)
     = False"
proof -
  let ?l = "\<lparr>max_acceptlist_size = 1,
      acceptlist_set = {|ConnectAddressWithType ToFilterAcceptListAddressType peer_A|}\<rparr>"
  let ?r = "\<lparr>max_address_resolution_size = 1, address_resolution_set = {|peer_A|}\<rparr>"
  have a: "ShadowAcceptlist_IsFull ?l"
    by (simp add: ShadowAcceptlist_IsFull_def fcard_finsert_if)
  have b: "ShadowAddressResolutionList_IsFull ?r"
    by (simp add: ShadowAddressResolutionList_IsFull_def fcard_finsert_if)
  from add_on_full_list_rejected [of ?l ToFilterAcceptListAddressType peer_A ?r] a b
  show ?thesis by simp
qed

text \<open>
  C4: \<open>accept_le_connection_from\<close>. When the shadow accept list is full, the promise is
  set to \<open>false\<close>, the manager's state is unchanged and nothing is called in the lower
  layer. Otherwise the entry of the address is in the shadow accept list afterwards, the
  promise is set to \<open>true\<close> (and never to \<open>false\<close>), and the one call into the lower
  layer is \<open>CreateLeConnection\<close> for that address.
\<close>

theorem accept_le_connection_from_full_or_added:
  "(ShadowAcceptlist_IsFull (shadow_acceptlist p) \<longrightarrow>
      accept_le_connection_from tofal p address_with_type is_direct =
        (p, [Log ERROR ''Acceptlist is full preventing new Le connection'' [],
             PromiseSetValue False])) \<and>
   (\<not> ShadowAcceptlist_IsFull (shadow_acceptlist p) \<longrightarrow>
      (case accept_le_connection_from tofal p address_with_type is_direct of
         (p', effects) \<Rightarrow>
           acceptlist_set (shadow_acceptlist p') =
             finsert (ConnectAddressWithType tofal address_with_type)
               (acceptlist_set (shadow_acceptlist p)) \<and>
           PromiseSetValue True \<in> set effects \<and> PromiseSetValue False \<notin> set effects \<and>
           lower_calls effects = [CreateLeConnection address_with_type is_direct]))"
  by (auto simp: accept_le_connection_from_def ShadowAcceptlist_IsFull_def
      ShadowAcceptlist_Add_def)

theorem accept_le_connection_from_full_or_added_witness:
  "ShadowAcceptlist_IsFull (shadow_acceptlist (pimpl example_acl)) \<and>
   accept_le_connection_from ToFilterAcceptListAddressType (pimpl example_acl) peer_C True =
     (pimpl example_acl,
      [Log ERROR ''Acceptlist is full preventing new Le connection'' [],
       PromiseSetValue False]) \<and>
   \<not> ShadowAcceptlist_IsFull (shadow_acceptlist (impl_new 2 2)) \<and>
   acceptlist_set (shadow_acceptlist (fst
     (accept_le_connection_from ToFilterAcceptListAddressType (impl_new 2 2) peer_A True))) =
     {|ConnectAddressWithType ToFilterAcceptListAddressType peer_A|} \<and>
   lower_calls (snd
     (accept_le_connection_from ToFilterAcceptListAddressType (impl_new 2 2) peer_A True)) =
     [CreateLeConnection peer_A True]"
proof -
  have full: "ShadowAcceptlist_IsFull (shadow_acceptlist (pimpl example_acl))"
    by (simp add: ShadowAcceptlist_IsFull_def example_acl_def fcard_finsert_if
        ConnectAddressWithType_def peer_A_def peer_B_identity_def)
  have room: "\<not> ShadowAcceptlist_IsFull (shadow_acceptlist (impl_new 2 2))"
    by (simp add: ShadowAcceptlist_IsFull_def impl_new_def ShadowAcceptlist_new_def
        fcard_fempty)
  have empty: "acceptlist_set (shadow_acceptlist (impl_new 2 2)) = {||}"
    by (simp add: impl_new_def ShadowAcceptlist_new_def)
  from accept_le_connection_from_full_or_added
         [of "pimpl example_acl" ToFilterAcceptListAddressType peer_C True]
       accept_le_connection_from_full_or_added
         [of "impl_new 2 2" ToFilterAcceptListAddressType peer_A True]
       full room empty
  show ?thesis by (simp add: case_prod_beta)
qed

section \<open>The link object\<close>

text \<open>
  C6: for every link that satisfies the invariant (as every link does when its constructor
  returns) and every sequence of \<open>EnqueuePacket\<close>, \<open>handle_enqueue\<close>,
  \<open>Disconnect\<close> and \<open>Shutdown\<close> that runs to its end, the enqueue registration at
  the queue end is present afterwards if and only if the outbound FIFO is non-empty and the
  disconnected latch is clear, and the link's latch \<open>is_enqueue_registered\<close> agrees
  with it.
\<close>

theorem enqueue_registration_invariant:
  assumes "enqueue_registration_inv c" and "link_run c ops = Inr c'"
  shows "(enqueue_registered (queue_up_end c') \<longleftrightarrow> queue c' \<noteq> [] \<and> \<not> is_disconnected c') \<and>
         (is_enqueue_registered c' \<longleftrightarrow> enqueue_registered (queue_up_end c'))"
  using link_run_inv [OF assms] by (simp add: enqueue_registration_inv_def)

theorem enqueue_registration_invariant_witness:
  "enqueue_registration_inv open_link \<and>
   link_run open_link [Op_EnqueuePacket [1], Op_EnqueuePacket [2], Op_handle_enqueue] =
     Inr (open_link\<lparr>queue := [[2]], is_enqueue_registered := True,
            queue_up_end := (queue_up_end open_link)\<lparr>enqueue_registered := True\<rparr>\<rparr>) \<and>
   link_run open_link
     [Op_EnqueuePacket [1], Op_EnqueuePacket [2], Op_handle_enqueue, Op_Disconnect] =
     Inr (open_link\<lparr>queue := [[2]], is_disconnected := True,
            queue_up_end := (queue_up_end open_link)\<lparr>dequeue_registered := False\<rparr>\<rparr>) \<and>
   enqueue_registered (queue_up_end (open_link\<lparr>queue := [[2]], is_enqueue_registered := True,
            queue_up_end := (queue_up_end open_link)\<lparr>enqueue_registered := True\<rparr>\<rparr>)) \<and>
   \<not> enqueue_registered (queue_up_end (open_link\<lparr>queue := [[2]], is_disconnected := True,
            queue_up_end := (queue_up_end open_link)\<lparr>dequeue_registered := False\<rparr>\<rparr>))"
proof -
  let ?ops = "[Op_EnqueuePacket [1], Op_EnqueuePacket [2], Op_handle_enqueue]"
  let ?c1 = "open_link\<lparr>queue := [[2]], is_enqueue_registered := True,
            queue_up_end := (queue_up_end open_link)\<lparr>enqueue_registered := True\<rparr>\<rparr>"
  let ?c2 = "open_link\<lparr>queue := [[2]], is_disconnected := True,
            queue_up_end := (queue_up_end open_link)\<lparr>dequeue_registered := False\<rparr>\<rparr>"
  have i: "enqueue_registration_inv open_link"
    unfolding open_link_def by (rule new_link_inv) (simp add: fresh_queue_end_def)
  have r1: "link_run open_link ?ops = Inr ?c1"
    by (simp add: open_link_def ShimAclConnection_new_def fresh_queue_end_def
        EnqueuePacket_def RegisterEnqueue_def handle_enqueue_def)
  have r2: "link_run open_link (?ops @ [Op_Disconnect]) = Inr ?c2"
    by (simp add: open_link_def ShimAclConnection_new_def fresh_queue_end_def
        EnqueuePacket_def RegisterEnqueue_def handle_enqueue_def Disconnect_def
        UnregisterEnqueue_def)
  from enqueue_registration_invariant [OF i r1] enqueue_registration_invariant [OF i r2]
    i r1 r2
  show ?thesis
    by (simp add: open_link_def ShimAclConnection_new_def fresh_queue_end_def)
qed

text \<open>
  C7, as amended: on a link whose disconnected latch is set, a second \<open>Disconnect\<close>
  is refused with an error log that carries the handle and the creation time and leaves
  the link as it was; a further \<open>EnqueuePacket\<close> does not return: it ends in the
  failed assertion that the link is not disconnected.
\<close>

theorem disconnected_link_refuses:
  assumes "is_disconnected c"
  shows "Disconnect c =
           (c, [Log ERROR ''Cannot disconnect ACL multiple times handle:{:04x} creation_time:{}''
                  [ArgNum (unat (conn_handle c)), ArgNum (conn_creation_time c)]]) \<and>
         EnqueuePacket c packet =
           Inl (AssertFailed ''Unable to send data over disconnected channel handle:%04x'')"
  using assms by (simp add: Disconnect_def EnqueuePacket_def RegisterEnqueue_def)

text \<open>
  C7 as stated fails for the enqueue: on the disconnected link \<open>closed_link\<close>, whose
  FIFO is empty, the call is not answered with a log line and an unchanged link: the packet
  is appended to the FIFO, and the registration that follows aborts on the assertion.
\<close>

theorem enqueue_on_disconnected_counterexample:
  "is_disconnected closed_link \<and> queue closed_link = [] \<and>
   EnqueuePacket closed_link [0xaa] = RegisterEnqueue (closed_link\<lparr>queue := [[0xaa]]\<rparr>) \<and>
   EnqueuePacket closed_link [0xaa] =
     Inl (AssertFailed ''Unable to send data over disconnected channel handle:%04x'')"
  by (simp add: closed_link_def open_link_def ShimAclConnection_new_def fresh_queue_end_def
      Disconnect_def UnregisterEnqueue_def EnqueuePacket_def RegisterEnqueue_def)

theorem disconnected_link_refuses_witness:
  "is_disconnected closed_link \<and>
   Disconnect closed_link =
     (closed_link,
      [Log ERROR ''Cannot disconnect ACL multiple times handle:{:04x} creation_time:{}''
         [ArgNum 64, ArgNum 1000]]) \<and>
   EnqueuePacket closed_link [0xaa] =
     Inl (AssertFailed ''Unable to send data over disconnected channel handle:%04x'')"
proof -
  have d: "is_disconnected closed_link"
    by (simp add: closed_link_def open_link_def ShimAclConnection_new_def
        fresh_queue_end_def Disconnect_def UnregisterEnqueue_def)
  have h: "unat (conn_handle closed_link) = 64 \<and> conn_creation_time closed_link = 1000"
    by (simp add: closed_link_def open_link_def ShimAclConnection_new_def
        fresh_queue_end_def Disconnect_def UnregisterEnqueue_def)
  from disconnected_link_refuses [OF d, of "[0xaa]"] d h show ?thesis by simp
qed

text \<open>
  C8: when an inbound packet of length L waits at the queue end of a link with handle H,
  \<open>data_ready_callback\<close> takes it and, where the sink \<open>send_data_upwards\<close> is
  registered, posts to it the buffer made of the four octets H mod 256, H div 256,
  L mod 256, L div 256 (each as an octet) followed by the payload; without a sink the
  buffer is logged as dropped and freed.
\<close>

theorem data_ready_preamble:
  assumes "inbound (queue_up_end c) = packet # rest"
  shows "\<exists>c'. inbound (queue_up_end c') = rest \<and>
     data_ready_callback c posted =
       Inr (c',
            (let buf = [word_of_nat (unat (conn_handle c) mod 256),
                        word_of_nat (unat (conn_handle c) div 256),
                        word_of_nat (length packet mod 256),
                        word_of_nat (length packet div 256)] @ packet
             in if \<not> send_data_upwards c
                then [Log WARN ''Dropping ACL data with no callback'' [], OsiFree buf]
                else if \<not> posted
                then [PostOnMain (cb_on_send_data_upwards buf), OsiFree buf]
                else [PostOnMain (cb_on_send_data_upwards buf)]))"
  using assms
  by (simp add: data_ready_callback_def Let_def MakeLegacyBtHdrPacket_def preamble_bytes)

theorem data_ready_preamble_witness:
  "inbound (queue_up_end receiving_link) = [[0xaa, 0xbb, 0xcc, 0xdd, 0xee]] \<and>
   effects_of (data_ready_callback receiving_link True) =
     [PostOnMain (cb_on_send_data_upwards
        [0x23, 0x01, 0x05, 0x00, 0xaa, 0xbb, 0xcc, 0xdd, 0xee])]"
proof -
  have i: "inbound (queue_up_end receiving_link) = [0xaa, 0xbb, 0xcc, 0xdd, 0xee] # []"
    by (simp add: receiving_link_def ShimAclConnection_new_def fresh_queue_end_def)
  have h: "conn_handle receiving_link = 0x0123 \<and> send_data_upwards receiving_link"
    by (simp add: receiving_link_def ShimAclConnection_new_def)
  from data_ready_preamble [OF i, of True] i h show ?thesis
    by (auto simp: effects_of_def)
qed

section \<open>Classic feature pages\<close>

text \<open>
  C5, as amended: on a classic link, when \<open>read_remote_supported_features\<close> completes,
  extended-features page 1 is requested if bit 63 is set and nothing is requested
  otherwise. When an extended-features page completes with page 0 and bit 63 clear,
  nothing is requested; otherwise the next page (page + 1 modulo 256) is requested exactly
  when the maximum page is not 0 and the page differs from the maximum page, which is so
  whenever the page is below the maximum page (and then page + 1 does not wrap around).
  In both handlers the first effect is the hand-over of the completed page: the closure
  posted to the upper callback when that callback is registered, the warning that the
  event is dropped when it is not; the request comes after it, and nothing else is posted.
\<close>

theorem remote_feature_page_walk:
  "lower_calls (OnReadRemoteSupportedFeaturesComplete c features) =
     (if bit features 63 then [ReadRemoteExtendedFeatures (conn_handle c) 1] else []) \<and>
   lower_calls (OnReadRemoteExtendedFeaturesComplete c page_number max_page_number features) =
     (if page_number = 0 \<and> \<not> bit features 63 then []
      else if max_page_number \<noteq> 0 \<and> page_number \<noteq> max_page_number
      then [ReadRemoteExtendedFeatures (conn_handle c) (page_number + 1)]
      else []) \<and>
   unat (page_number + 1) = (unat page_number + 1) mod 256 \<and>
   (page_number < max_page_number \<longrightarrow>
      max_page_number \<noteq> 0 \<and> page_number \<noteq> max_page_number \<and>
      unat (page_number + 1) = unat page_number + 1) \<and>
   (\<exists>rest. OnReadRemoteSupportedFeaturesComplete c features =
      (if on_read_remote_supported_features_complete (classic_interface c)
       then PostOnMain (cb_on_read_remote_supported_features_complete (conn_handle c) features)
       else Log WARN ''Dropping ACL event with no callback'' []) # rest \<and>
      posted_closures rest = [] \<and>
      lower_calls rest = lower_calls (OnReadRemoteSupportedFeaturesComplete c features)) \<and>
   (\<exists>rest. OnReadRemoteExtendedFeaturesComplete c page_number max_page_number features =
      (if on_read_remote_extended_features_complete (classic_interface c)
       then PostOnMain (cb_on_read_remote_extended_features_complete (conn_handle c)
              page_number max_page_number features)
       else Log WARN ''Dropping ACL event with no callback'' []) # rest \<and>
      posted_closures rest = [] \<and>
      lower_calls rest =
        lower_calls (OnReadRemoteExtendedFeaturesComplete c page_number max_page_number
                       features))"
proof -
  have b: "(features AND push_bit 63 1 \<noteq> 0) = bit features 63"
    by (simp add: bit_iff_and_push_bit_not_eq_0)
  have w: "unat (page_number + 1) = (unat page_number + 1) mod 256"
    by (simp add: unat_word_ariths)
  have s: "unat (page_number + 1) = unat page_number + 1" if "page_number < max_page_number"
  proof -
    from that have "unat page_number < unat max_page_number" by (simp add: word_less_nat_alt)
    moreover have "unat max_page_number < 2 ^ 8"
      using unsigned_less [of max_page_number] by simp
    ultimately have "unat page_number + 1 < 256" by simp
    then show ?thesis by (simp add: unat_word_ariths)
  qed
  have n: "max_page_number \<noteq> 0 \<and> page_number \<noteq> max_page_number"
    if "page_number < max_page_number"
    using that by (auto simp: word_less_nat_alt)
  show ?thesis
    unfolding OnReadRemoteSupportedFeaturesComplete_def
      OnReadRemoteExtendedFeaturesComplete_def b
    using s n w by (simp add: TRY_POSTING_ON_MAIN_def)
qed

text \<open>
  C5 as stated fails beyond the maximum page and without a registered callback: on the
  link with handle 0x0010, page 3 of 2 makes the handler request page 4 and page 255 of 1
  makes it request page 0, though neither page is below the maximum page; and with the
  link callbacks unset, page 1 of 2 is dropped with a warning, not forwarded, while page 2
  is requested all the same.
\<close>

theorem remote_feature_page_beyond_max_counterexample:
  "\<not> (3 :: 8 word) < 2 \<and>
   lower_calls (OnReadRemoteExtendedFeaturesComplete closed_classic_link 3 2 0x7) =
     [ReadRemoteExtendedFeatures 0x0010 4] \<and>
   \<not> (255 :: 8 word) < 1 \<and>
   lower_calls (OnReadRemoteExtendedFeaturesComplete closed_classic_link 255 1 0x7) =
     [ReadRemoteExtendedFeatures 0x0010 0] \<and>
   OnReadRemoteExtendedFeaturesComplete
     (closed_classic_link
        \<lparr>classic_interface := \<lparr>on_read_remote_supported_features_complete = False,
                                on_read_remote_extended_features_complete = False\<rparr>\<rparr>)
     1 2 0x7 =
     [Log WARN ''Dropping ACL event with no callback'' [],
      Lower (ReadRemoteExtendedFeatures 0x0010 2)]"
  by (simp add: OnReadRemoteExtendedFeaturesComplete_def closed_classic_link_def
      all_callbacks_def TRY_POSTING_ON_MAIN_def)

text \<open>
  The walk of a peer with two extension pages, on the link with handle 0x0010: features
  with bit 63 set, then page 1 of 2, then page 2 of 2; and a page 0 without bit 63.
\<close>

theorem remote_feature_page_walk_witness:
  "bit (0x8000000000000000 :: 64 word) 63 \<and>
   lower_calls (OnReadRemoteSupportedFeaturesComplete closed_classic_link 0x8000000000000000) =
     [ReadRemoteExtendedFeatures 0x0010 1] \<and>
   (1 :: 8 word) < 2 \<and> unat ((1 :: 8 word) + 1) = unat (1 :: 8 word) + 1 \<and>
   lower_calls (OnReadRemoteExtendedFeaturesComplete closed_classic_link 1 2 0x7) =
     [ReadRemoteExtendedFeatures 0x0010 2] \<and>
   lower_calls (OnReadRemoteExtendedFeaturesComplete closed_classic_link 2 2 0x7) = [] \<and>
   \<not> bit (0x7 :: 64 word) 63 \<and>
   lower_calls (OnReadRemoteExtendedFeaturesComplete closed_classic_link 0 2 0x7) = [] \<and>
   on_read_remote_extended_features_complete (classic_interface closed_classic_link) \<and>
   hd (OnReadRemoteExtendedFeaturesComplete closed_classic_link 1 2 0x7) =
     PostOnMain (cb_on_read_remote_extended_features_complete 0x0010 1 2 0x7) \<and>
   on_read_remote_supported_features_complete (classic_interface closed_classic_link) \<and>
   hd (OnReadRemoteSupportedFeaturesComplete closed_classic_link 0x8000000000000000) =
     PostOnMain (cb_on_read_remote_supported_features_complete 0x0010 0x8000000000000000)"
proof -
  have b1: "bit (0x8000000000000000 :: 64 word) 63"
    by (simp add: bit_iff_odd_drop_bit drop_bit_eq_div)
  have b2: "\<not> bit (0x7 :: 64 word) 63"
    by (simp add: bit_iff_odd_drop_bit drop_bit_eq_div)
  have lt: "(1 :: 8 word) < 2"
    by simp
  have h: "conn_handle closed_classic_link = 0x0010 \<and>
           on_read_remote_extended_features_complete (classic_interface closed_classic_link) \<and>
           on_read_remote_supported_features_complete (classic_interface closed_classic_link)"
    by (simp add: closed_classic_link_def all_callbacks_def)
  note sup = remote_feature_page_walk
    [where c = closed_classic_link and features = "0x8000000000000000"
       and page_number = 1 and max_page_number = 2]
  note p1 = remote_feature_page_walk
    [where c = closed_classic_link and features = "0x7"
       and page_number = 1 and max_page_number = 2]
  note p2 = remote_feature_page_walk
    [where c = closed_classic_link and features = "0x7"
       and page_number = 2 and max_page_number = 2]
  note p0 = remote_feature_page_walk
    [where c = closed_classic_link and features = "0x7"
       and page_number = 0 and max_page_number = 2]
  have r0: "lower_calls (OnReadRemoteSupportedFeaturesComplete closed_classic_link
                           0x8000000000000000) = [ReadRemoteExtendedFeatures 0x0010 1]"
    using sup [THEN conjunct1] b1 h by simp
  have r1: "lower_calls (OnReadRemoteExtendedFeaturesComplete closed_classic_link 1 2 0x7) =
              [ReadRemoteExtendedFeatures 0x0010 2]"
    using p1 [THEN conjunct2, THEN conjunct1] h by simp
  have r2: "lower_calls (OnReadRemoteExtendedFeaturesComplete closed_classic_link 2 2 0x7) = []"
    using p2 [THEN conjunct2, THEN conjunct1] by simp
  have r3: "lower_calls (OnReadRemoteExtendedFeaturesComplete closed_classic_link 0 2 0x7) = []"
    using p0 [THEN conjunct2, THEN conjunct1] b2 by simp
  have u: "unat ((1 :: 8 word) + 1) = unat (1 :: 8 word) + 1"
    using p1 [THEN conjunct2, THEN conjunct2, THEN conjunct2, THEN conjunct1] lt by simp
  have h1: "hd (OnReadRemoteExtendedFeaturesComplete closed_classic_link 1 2 0x7) =
              PostOnMain (cb_on_read_remote_extended_features_complete 0x0010 1 2 0x7)"
    using p1 [THEN conjunct2, THEN conjunct2, THEN conjunct2, THEN conjunct2, THEN conjunct2] h
    by (elim exE conjE) simp
  have h0: "hd (OnReadRemoteSupportedFeaturesComplete closed_classic_link 0x8000000000000000) =
              PostOnMain (cb_on_read_remote_supported_features_complete 0x0010
                            0x8000000000000000)"
    using sup [THEN conjunct2, THEN conjunct2, THEN conjunct2, THEN conjunct2, THEN conjunct1] h
    by (elim exE conjE) simp
  from b1 b2 lt h r0 r1 r2 r3 u h1 h0 show ?thesis by simp
qed

section \<open>The event handlers of the manager\<close>

text \<open>
  C2: on an LE connect-success for a handle that is not yet in the LE map, with the
  callback table the constructor has validated, the handler returns with the new link in
  the map. If the connection reports that it was not in the filter accept list and the
  role is central, \<open>Disconnect\<close> with reason \<open>REMOTE_USER_TERMINATED_CONNECTION\<close>
  is called on the connection and nothing is posted; in every other case nothing is
  disconnected and exactly \<open>on_connected\<close> is posted.
\<close>

theorem le_connect_success_accept_list_race:
  assumes "handle_to_le_connection_map (pimpl a) (le_GetHandle connection) = None"
    and "ValidateAclInterface (acl_interface a) = Inr ()"
  shows "\<exists>a' effects.
     OnLeConnectSuccess tofal a address_with_type connection now = Inr (a', effects) \<and>
     handle_to_le_connection_map (pimpl a') (le_GetHandle connection) \<noteq> None \<and>
     (if \<not> IsInFilterAcceptList connection \<and> le_GetRole connection = CENTRAL
      then lower_calls effects =
             [QueueRegisterDequeue (le_GetHandle connection),
              RegisterCallbacks (le_GetHandle connection),
              Disconnect_call (le_GetHandle connection) REMOTE_USER_TERMINATED_CONNECTION] \<and>
           posted_closures effects = []
      else lower_calls effects =
             [QueueRegisterDequeue (le_GetHandle connection),
              RegisterCallbacks (le_GetHandle connection)] \<and>
           posted_closures effects =
             [cb_le_on_connected address_with_type (le_GetHandle connection)
                (le_GetRole connection) (interval connection) (latency connection)
                (supervision_timeout connection) (local_resolvable_private_address connection)
                (peer_resolvable_private_address connection)
                (GetAddressType (peer_address_with_type connection))
                (case GetRoleSpecificData connection of
                   DataAsPeripheral _ discoverable \<Rightarrow> discoverable
                 | DataAsCentral \<Rightarrow> True)])"
  using assms(1) validated_callbacks [OF assms(2)]
  by (simp add: OnLeConnectSuccess_def Let_def LeShimAclConnection_new_def
      ShimAclConnection_new_def ShimAclConnection.defs LeShimAclConnection.defs
      case_prod_beta)

theorem le_connect_success_accept_list_race_witness:
  "handle_to_le_connection_map (pimpl example_acl) (le_GetHandle le_connection_B) = None \<and>
   handle_to_le_connection_map (pimpl example_acl) (le_GetHandle le_connection_A) = None \<and>
   ValidateAclInterface (acl_interface example_acl) = Inr () \<and>
   \<not> IsInFilterAcceptList le_connection_B \<and> le_GetRole le_connection_B = CENTRAL \<and>
   lower_calls (effects_of (OnLeConnectSuccess ToFilterAcceptListAddressType example_acl
                              peer_B_rpa le_connection_B 3000)) =
     [QueueRegisterDequeue 0x0041, RegisterCallbacks 0x0041,
      Disconnect_call 0x0041 REMOTE_USER_TERMINATED_CONNECTION] \<and>
   posted_closures (effects_of (OnLeConnectSuccess ToFilterAcceptListAddressType example_acl
                                  peer_B_rpa le_connection_B 3000)) = [] \<and>
   IsInFilterAcceptList le_connection_A \<and>
   lower_calls (effects_of (OnLeConnectSuccess ToFilterAcceptListAddressType example_acl
                              peer_A le_connection_A 3000)) =
     [QueueRegisterDequeue 0x0040, RegisterCallbacks 0x0040] \<and>
   posted_closures (effects_of (OnLeConnectSuccess ToFilterAcceptListAddressType example_acl
                                  peer_A le_connection_A 3000)) =
     [cb_le_on_connected peer_A 0x0040 CENTRAL 24 0 400 (Address 0 0 0 0 0 0)
        (Address 0 0 0 0 0 0) PUBLIC_DEVICE_ADDRESS True]"
proof -
  have nb: "handle_to_le_connection_map (pimpl example_acl) (le_GetHandle le_connection_B) = None"
    by (simp add: example_acl_def le_connection_B_def)
  have na: "handle_to_le_connection_map (pimpl example_acl) (le_GetHandle le_connection_A) = None"
    by (simp add: example_acl_def le_connection_A_def)
  have v: "ValidateAclInterface (acl_interface example_acl) = Inr ()"
    by (simp add: example_acl_def all_callbacks_valid)
  have fb: "\<not> IsInFilterAcceptList le_connection_B \<and> le_GetRole le_connection_B = CENTRAL \<and>
            le_GetHandle le_connection_B = 0x0041"
    by (simp add: le_connection_B_def)
  have fa: "IsInFilterAcceptList le_connection_A \<and> le_GetRole le_connection_A = CENTRAL \<and>
            le_GetHandle le_connection_A = 0x0040 \<and> interval le_connection_A = 24 \<and>
            latency le_connection_A = 0 \<and> supervision_timeout le_connection_A = 400 \<and>
            local_resolvable_private_address le_connection_A = Address 0 0 0 0 0 0 \<and>
            peer_resolvable_private_address le_connection_A = Address 0 0 0 0 0 0 \<and>
            GetAddressType (peer_address_with_type le_connection_A) = PUBLIC_DEVICE_ADDRESS \<and>
            GetRoleSpecificData le_connection_A = DataAsCentral"
    by (simp add: le_connection_A_def peer_A_def)
  from le_connect_success_accept_list_race
         [OF nb v, of ToFilterAcceptListAddressType peer_B_rpa 3000] fb
  have b: "lower_calls (effects_of (OnLeConnectSuccess ToFilterAcceptListAddressType example_acl
                              peer_B_rpa le_connection_B 3000)) =
     [QueueRegisterDequeue 0x0041, RegisterCallbacks 0x0041,
      Disconnect_call 0x0041 REMOTE_USER_TERMINATED_CONNECTION] \<and>
   posted_closures (effects_of (OnLeConnectSuccess ToFilterAcceptListAddressType example_acl
                                  peer_B_rpa le_connection_B 3000)) = []"
    by (auto simp: effects_of_def)
  from le_connect_success_accept_list_race
         [OF na v, of ToFilterAcceptListAddressType peer_A 3000] fa
  have a: "lower_calls (effects_of (OnLeConnectSuccess ToFilterAcceptListAddressType example_acl
                              peer_A le_connection_A 3000)) =
     [QueueRegisterDequeue 0x0040, RegisterCallbacks 0x0040] \<and>
   posted_closures (effects_of (OnLeConnectSuccess ToFilterAcceptListAddressType example_acl
                                  peer_A le_connection_A 3000)) =
     [cb_le_on_connected peer_A 0x0040 CENTRAL 24 0 400 (Address 0 0 0 0 0 0)
        (Address 0 0 0 0 0 0) PUBLIC_DEVICE_ADDRESS True]"
    by (auto simp: effects_of_def)
  from nb na v fb fa a b show ?thesis by simp
qed

text \<open>
  C3: on an LE connect-success for a handle that is not yet in the LE map, the handler
  returns, and the shadow accept list afterwards is the one before without the entry of
  the peer's identity, where the identity is the connection's \<open>peer_address_with_type\<close>
  when the reported address is an RPA (type random device address and octet 5 with
  \<open>0xc0\<close> masked equal to \<open>0x40\<close>) and the reported address otherwise. So the
  entry of the identity is not in the shadow accept list afterwards.
\<close>

theorem le_connect_success_removes_identity:
  assumes "handle_to_le_connection_map (pimpl a) (le_GetHandle connection) = None"
  shows "\<exists>a' effects.
     OnLeConnectSuccess tofal a address_with_type connection now = Inr (a', effects) \<and>
     acceptlist_set (shadow_acceptlist (pimpl a')) =
       acceptlist_set (shadow_acceptlist (pimpl a)) |-|
         {|ConnectAddressWithType tofal (le_identity address_with_type connection)|} \<and>
     ConnectAddressWithType tofal (le_identity address_with_type connection) |\<notin>|
       acceptlist_set (shadow_acceptlist (pimpl a')) \<and>
     (IsRpa address_with_type \<longleftrightarrow>
        GetAddressType address_with_type = RANDOM_DEVICE_ADDRESS \<and>
        data5 (GetAddress address_with_type) AND 0xc0 = 0x40) \<and>
     le_identity address_with_type connection =
       (if IsRpa address_with_type then peer_address_with_type connection
        else address_with_type)"
  using assms
  by (simp add: OnLeConnectSuccess_def Let_def LeShimAclConnection_new_def le_identity_def
      ShimAclConnection_new_def ShimAclConnection.defs LeShimAclConnection.defs
      Remove_set case_prod_beta IsRpa_def)

theorem le_connect_success_removes_identity_witness:
  "handle_to_le_connection_map (pimpl example_acl) (le_GetHandle le_connection_B) = None \<and>
   IsRpa peer_B_rpa \<and>
   le_identity peer_B_rpa le_connection_B = peer_B_identity \<and>
   ConnectAddressWithType ToFilterAcceptListAddressType peer_B_identity |\<in>|
     acceptlist_set (shadow_acceptlist (pimpl example_acl)) \<and>
   (\<exists>a' effects.
      OnLeConnectSuccess ToFilterAcceptListAddressType example_acl peer_B_rpa le_connection_B
        3000 = Inr (a', effects) \<and>
      acceptlist_set (shadow_acceptlist (pimpl a')) =
        {|ConnectAddressWithType ToFilterAcceptListAddressType peer_A|})"
proof -
  have nb: "handle_to_le_connection_map (pimpl example_acl) (le_GetHandle le_connection_B) = None"
    by (simp add: example_acl_def le_connection_B_def)
  have rpa: "IsRpa peer_B_rpa"
    by (simp add: IsRpa_def peer_B_rpa_def)
  have idn: "le_identity peer_B_rpa le_connection_B = peer_B_identity"
    by (simp add: le_identity_def rpa le_connection_B_def)
  have ne: "ConnectAddressWithType ToFilterAcceptListAddressType peer_A \<noteq>
            ConnectAddressWithType ToFilterAcceptListAddressType peer_B_identity"
    by (simp add: ConnectAddressWithType_def peer_A_def peer_B_identity_def)
  have before: "acceptlist_set (shadow_acceptlist (pimpl example_acl)) =
      {|ConnectAddressWithType ToFilterAcceptListAddressType peer_A,
        ConnectAddressWithType ToFilterAcceptListAddressType peer_B_identity|}"
    by (simp add: example_acl_def)
  have minus: "{|ConnectAddressWithType ToFilterAcceptListAddressType peer_A,
        ConnectAddressWithType ToFilterAcceptListAddressType peer_B_identity|} |-|
      {|ConnectAddressWithType ToFilterAcceptListAddressType peer_B_identity|} =
      {|ConnectAddressWithType ToFilterAcceptListAddressType peer_A|}"
    using ne by auto
  from le_connect_success_removes_identity
         [OF nb, of ToFilterAcceptListAddressType peer_B_rpa 3000]
  obtain a' effects where
    "OnLeConnectSuccess ToFilterAcceptListAddressType example_acl peer_B_rpa le_connection_B
        3000 = Inr (a', effects)"
    "acceptlist_set (shadow_acceptlist (pimpl a')) =
       acceptlist_set (shadow_acceptlist (pimpl example_acl)) |-|
         {|ConnectAddressWithType ToFilterAcceptListAddressType
             (le_identity peer_B_rpa le_connection_B)|}"
    by blast
  then have "\<exists>a' effects.
      OnLeConnectSuccess ToFilterAcceptListAddressType example_acl peer_B_rpa le_connection_B
        3000 = Inr (a', effects) \<and>
      acceptlist_set (shadow_acceptlist (pimpl a')) =
        {|ConnectAddressWithType ToFilterAcceptListAddressType peer_A|}"
    by (simp add: idn before minus)
  with nb rpa idn before show ?thesis by simp
qed

text \<open>
  C1, as amended: when the disconnected event reaches the manager for a handle whose
  link is in the map (classic or LE) with its latch set, and the callback table is the
  validated one, the handler returns; \<open>on_disconnected\<close> for the handle is the one
  closure posted, posted exactly once, after the link has been erased from the map and
  before the history entry for the handle is pushed; that entry is pushed exactly once, as
  the last step, and is the newest entry of the history afterwards.
\<close>

theorem on_disconnected_posted_once_before_history_push:
  "(handle_to_classic_connection_map (pimpl a) h = Some link \<and> is_disconnected link \<and>
    ValidateAclInterface (acl_interface a) = Inr () \<longrightarrow>
      (\<exists>a' effects. OnClassicLinkDisconnected a h reason now = Inr (a', effects) \<and>
         posted_closures effects = [cb_classic_on_disconnected SUCCESS h reason] \<and>
         length (filter (is_on_disconnected h) effects) = 1 \<and>
         length (filter (is_history_push h) effects) = 1 \<and>
         pushed_after_post h effects \<and>
         hd effects = MapErase h \<and>
         last effects = HistoryPush (last (connection_history (pimpl a'))) \<and>
         handle_to_classic_connection_map (pimpl a') h = None \<and>
         last (connection_history (pimpl a')) =
           ClassicConnectionDescriptor (classic_GetAddress (classic_connection link))
             (conn_creation_time link) now h
             (classic_locally_initiated (classic_connection link)) reason)) \<and>
   (handle_to_le_connection_map (pimpl a) h = Some le_link \<and> is_disconnected le_link \<and>
    ValidateAclInterface (acl_interface a) = Inr () \<longrightarrow>
      (\<exists>a' effects. OnLeLinkDisconnected a h reason now = Inr (a', effects) \<and>
         posted_closures effects = [cb_le_on_disconnected SUCCESS h reason] \<and>
         length (filter (is_on_disconnected h) effects) = 1 \<and>
         length (filter (is_history_push h) effects) = 1 \<and>
         pushed_after_post h effects \<and>
         hd effects = MapErase h \<and>
         last effects = HistoryPush (last (connection_history (pimpl a'))) \<and>
         handle_to_le_connection_map (pimpl a') h = None \<and>
         last (connection_history (pimpl a')) =
           LeConnectionDescriptor (le_GetRemoteAddress (le_connection le_link))
             (conn_creation_time le_link) now h
             (le_locally_initiated (le_connection le_link)) reason))"
proof (intro conjI impI)
  assume c: "handle_to_classic_connection_map (pimpl a) h = Some link \<and> is_disconnected link \<and>
    ValidateAclInterface (acl_interface a) = Inr ()"
  let ?d = "ClassicConnectionDescriptor (classic_GetAddress (classic_connection link))
             (conn_creation_time link) now h
             (classic_locally_initiated (classic_connection link)) reason"
  from c have c1: "handle_to_classic_connection_map (pimpl a) h = Some link" and c2: "is_disconnected link"
    by simp_all
  from c have cb: "connection_classic_on_disconnected (acl_interface a) = True"
    using validated_callbacks by blast
  obtain q' where q': "FixedQueue_Push kConnectionHistorySize (connection_history (pimpl a)) ?d
      = Inr q'" and l: "last q' = ?d"
    using push_history [of "connection_history (pimpl a)" ?d] by (elim exE conjE)
  let ?a' = "a\<lparr>pimpl := (pimpl a)
             \<lparr>handle_to_classic_connection_map := (handle_to_classic_connection_map (pimpl a))(h := None),
              connection_history := q'\<rparr>\<rparr>"
  let ?e = "[MapErase h] @
          (if queue link \<noteq> []
           then [Log ERROR ''ACL cleaned up with non-empty queue handle:0x{:04x} stranded_pkts:{}''
                        [ArgNum (unat (conn_handle link)), ArgNum (length (queue link))]]
           else []) @
          TRY_POSTING_ON_MAIN True (cb_classic_on_disconnected SUCCESS h reason) @
          [Log DEBUG ''Disconnected classic link remote:{} handle:{} reason:{}''
             [ArgAddress (classic_GetAddress (classic_connection link)), ArgNum (unat h),
              ArgNum (unat reason)],
           BTM_LogHistory (ArgAddress (classic_GetAddress (classic_connection link)))
             ''Disconnected'' ''classic reason:%s'',
           HistoryPush ?d]"
  have r: "OnClassicLinkDisconnected a h reason now = Inr (?a', ?e)"
    by (rule OnClassicLinkDisconnected_result [OF c1 c2 q', unfolded cb])
  have t: "posted_closures ?e = [cb_classic_on_disconnected SUCCESS h reason] \<and>
         length (filter (is_on_disconnected h) ?e) = 1 \<and>
         length (filter (is_history_push h) ?e) = 1 \<and>
         pushed_after_post h ?e \<and> \<not> posted_after_push h ?e \<and>
         hd ?e = MapErase h \<and> last ?e = HistoryPush ?d"
    by (rule disconnected_trace [OF refl]) simp_all
  have s1: "handle_to_classic_connection_map (pimpl ?a') h = None"
    by simp
  have s2: "last (connection_history (pimpl ?a')) = ?d"
    using l by simp
  show "\<exists>a' effects. OnClassicLinkDisconnected a h reason now = Inr (a', effects) \<and>
         posted_closures effects = [cb_classic_on_disconnected SUCCESS h reason] \<and>
         length (filter (is_on_disconnected h) effects) = 1 \<and>
         length (filter (is_history_push h) effects) = 1 \<and>
         pushed_after_post h effects \<and>
         hd effects = MapErase h \<and>
         last effects = HistoryPush (last (connection_history (pimpl a'))) \<and>
         handle_to_classic_connection_map (pimpl a') h = None \<and>
         last (connection_history (pimpl a')) = ?d"
    by (rule exI [of _ ?a'], rule exI [of _ ?e]) (simp only: r t s1 s2 simp_thms)
next
  assume c: "handle_to_le_connection_map (pimpl a) h = Some le_link \<and> is_disconnected le_link \<and>
    ValidateAclInterface (acl_interface a) = Inr ()"
  let ?d = "LeConnectionDescriptor (le_GetRemoteAddress (le_connection le_link))
             (conn_creation_time le_link) now h
             (le_locally_initiated (le_connection le_link)) reason"
  from c have c1: "handle_to_le_connection_map (pimpl a) h = Some le_link" and c2: "is_disconnected le_link"
    by simp_all
  from c have cb: "connection_le_on_disconnected (acl_interface a) = True"
    using validated_callbacks by blast
  obtain q' where q': "FixedQueue_Push kConnectionHistorySize (connection_history (pimpl a)) ?d
      = Inr q'" and l: "last q' = ?d"
    using push_history [of "connection_history (pimpl a)" ?d] by (elim exE conjE)
  let ?a' = "a\<lparr>pimpl := (pimpl a)
             \<lparr>handle_to_le_connection_map := (handle_to_le_connection_map (pimpl a))(h := None),
              connection_history := q'\<rparr>\<rparr>"
  let ?e = "[MapErase h] @
          (if queue le_link \<noteq> []
           then [Log ERROR ''ACL cleaned up with non-empty queue handle:0x{:04x} stranded_pkts:{}''
                        [ArgNum (unat (conn_handle le_link)), ArgNum (length (queue le_link))]]
           else []) @
          TRY_POSTING_ON_MAIN True (cb_le_on_disconnected SUCCESS h reason) @
          [Log DEBUG ''Disconnected le link remote:{} handle:{} reason:{}''
             [ArgAddressWithType (le_GetRemoteAddress (le_connection le_link)), ArgNum (unat h),
              ArgNum (unat reason)],
           BTM_LogHistory (ArgAddressWithType (le_GetRemoteAddress (le_connection le_link)))
             ''Disconnected'' ''Le reason:%s'',
           HistoryPush ?d]"
  have r: "OnLeLinkDisconnected a h reason now = Inr (?a', ?e)"
    by (rule OnLeLinkDisconnected_result [OF c1 c2 q', unfolded cb])
  have t: "posted_closures ?e = [cb_le_on_disconnected SUCCESS h reason] \<and>
         length (filter (is_on_disconnected h) ?e) = 1 \<and>
         length (filter (is_history_push h) ?e) = 1 \<and>
         pushed_after_post h ?e \<and> \<not> posted_after_push h ?e \<and>
         hd ?e = MapErase h \<and> last ?e = HistoryPush ?d"
    by (rule disconnected_trace [OF refl]) simp_all
  have s1: "handle_to_le_connection_map (pimpl ?a') h = None"
    by simp
  have s2: "last (connection_history (pimpl ?a')) = ?d"
    using l by simp
  show "\<exists>a' effects. OnLeLinkDisconnected a h reason now = Inr (a', effects) \<and>
         posted_closures effects = [cb_le_on_disconnected SUCCESS h reason] \<and>
         length (filter (is_on_disconnected h) effects) = 1 \<and>
         length (filter (is_history_push h) effects) = 1 \<and>
         pushed_after_post h effects \<and>
         hd effects = MapErase h \<and>
         last effects = HistoryPush (last (connection_history (pimpl a'))) \<and>
         handle_to_le_connection_map (pimpl a') h = None \<and>
         last (connection_history (pimpl a')) = ?d"
    by (rule exI [of _ ?a'], rule exI [of _ ?e]) (simp only: r t s1 s2 simp_thms)
qed

text \<open>
  C1 as stated fails on the order: for the classic link 0x0010 and the LE link 0x0021 of
  \<open>example_acl\<close> the closure is posted before the history entry is pushed.
\<close>

theorem on_disconnected_after_push_counterexample:
  "effects_of (OnClassicLinkDisconnected example_acl 0x0010 0x13 2000) =
     [MapErase 0x0010,
      PostOnMain (cb_classic_on_disconnected SUCCESS 0x0010 0x13),
      Log DEBUG ''Disconnected classic link remote:{} handle:{} reason:{}''
        [ArgAddress (Address 0xa1 0xa2 0xa3 0xa4 0xa5 0xa6), ArgNum 16, ArgNum 19],
      BTM_LogHistory (ArgAddress (Address 0xa1 0xa2 0xa3 0xa4 0xa5 0xa6)) ''Disconnected''
        ''classic reason:%s'',
      HistoryPush (ClassicConnectionDescriptor (Address 0xa1 0xa2 0xa3 0xa4 0xa5 0xa6)
                     1000 2000 0x0010 True 0x13)] \<and>
   \<not> posted_after_push 0x0010
       (effects_of (OnClassicLinkDisconnected example_acl 0x0010 0x13 2000)) \<and>
   effects_of (OnLeLinkDisconnected example_acl 0x0021 0x13 2000) =
     [MapErase 0x0021,
      PostOnMain (cb_le_on_disconnected SUCCESS 0x0021 0x13),
      Log DEBUG ''Disconnected le link remote:{} handle:{} reason:{}''
        [ArgAddressWithType peer_A, ArgNum 33, ArgNum 19],
      BTM_LogHistory (ArgAddressWithType peer_A) ''Disconnected'' ''Le reason:%s'',
      HistoryPush (LeConnectionDescriptor peer_A 1500 2000 0x0021 True 0x13)] \<and>
   \<not> posted_after_push 0x0021
       (effects_of (OnLeLinkDisconnected example_acl 0x0021 0x13 2000))"
proof -
  have c: "effects_of (OnClassicLinkDisconnected example_acl 0x0010 0x13 2000) =
     [MapErase 0x0010,
      PostOnMain (cb_classic_on_disconnected SUCCESS 0x0010 0x13),
      Log DEBUG ''Disconnected classic link remote:{} handle:{} reason:{}''
        [ArgAddress (Address 0xa1 0xa2 0xa3 0xa4 0xa5 0xa6), ArgNum 16, ArgNum 19],
      BTM_LogHistory (ArgAddress (Address 0xa1 0xa2 0xa3 0xa4 0xa5 0xa6)) ''Disconnected''
        ''classic reason:%s'',
      HistoryPush (ClassicConnectionDescriptor (Address 0xa1 0xa2 0xa3 0xa4 0xa5 0xa6)
                     1000 2000 0x0010 True 0x13)]"
    by (simp add: effects_of_def OnClassicLinkDisconnected_def example_acl_def
        closed_classic_link_def all_callbacks_def fresh_queue_end_def Let_def
        ShimAclConnection_destroy_def FixedQueue_Push_def kConnectionHistorySize_def
        TRY_POSTING_ON_MAIN_def)
  have l: "effects_of (OnLeLinkDisconnected example_acl 0x0021 0x13 2000) =
     [MapErase 0x0021,
      PostOnMain (cb_le_on_disconnected SUCCESS 0x0021 0x13),
      Log DEBUG ''Disconnected le link remote:{} handle:{} reason:{}''
        [ArgAddressWithType peer_A, ArgNum 33, ArgNum 19],
      BTM_LogHistory (ArgAddressWithType peer_A) ''Disconnected'' ''Le reason:%s'',
      HistoryPush (LeConnectionDescriptor peer_A 1500 2000 0x0021 True 0x13)]"
    by (simp add: effects_of_def OnLeLinkDisconnected_def example_acl_def
        closed_le_link_def le_connection_A_def all_callbacks_def fresh_queue_end_def Let_def
        ShimAclConnection_destroy_def FixedQueue_Push_def kConnectionHistorySize_def
        TRY_POSTING_ON_MAIN_def)
  show ?thesis unfolding c l by simp
qed

theorem on_disconnected_posted_once_before_history_push_witness:
  "handle_to_classic_connection_map (pimpl example_acl) 0x0010 = Some closed_classic_link \<and>
   is_disconnected closed_classic_link \<and>
   handle_to_le_connection_map (pimpl example_acl) 0x0021 = Some closed_le_link \<and>
   is_disconnected closed_le_link \<and>
   ValidateAclInterface (acl_interface example_acl) = Inr () \<and>
   posted_closures (effects_of (OnClassicLinkDisconnected example_acl 0x0010 0x13 2000)) =
     [cb_classic_on_disconnected SUCCESS 0x0010 0x13] \<and>
   pushed_after_post 0x0010
     (effects_of (OnClassicLinkDisconnected example_acl 0x0010 0x13 2000)) \<and>
   posted_closures (effects_of (OnLeLinkDisconnected example_acl 0x0021 0x13 2000)) =
     [cb_le_on_disconnected SUCCESS 0x0021 0x13] \<and>
   pushed_after_post 0x0021 (effects_of (OnLeLinkDisconnected example_acl 0x0021 0x13 2000))"
proof -
  have mc: "handle_to_classic_connection_map (pimpl example_acl) 0x0010 =
              Some closed_classic_link"
    by (simp add: example_acl_def)
  have dc: "is_disconnected closed_classic_link"
    by (simp add: closed_classic_link_def)
  have ml: "handle_to_le_connection_map (pimpl example_acl) 0x0021 = Some closed_le_link"
    by (simp add: example_acl_def)
  have dl: "is_disconnected closed_le_link"
    by (simp add: closed_le_link_def)
  have v: "ValidateAclInterface (acl_interface example_acl) = Inr ()"
    by (simp add: example_acl_def all_callbacks_valid)
  note classic = on_disconnected_posted_once_before_history_push
    [of example_acl "0x0010" closed_classic_link "0x13" 2000 closed_le_link,
     THEN conjunct1, rule_format, OF conjI [OF mc conjI [OF dc v]]]
  note le = on_disconnected_posted_once_before_history_push
    [of example_acl "0x0021" closed_classic_link "0x13" 2000 closed_le_link,
     THEN conjunct2, rule_format, OF conjI [OF ml conjI [OF dl v]]]
  have c: "posted_closures (effects_of (OnClassicLinkDisconnected example_acl 0x0010 0x13 2000))
             = [cb_classic_on_disconnected SUCCESS 0x0010 0x13] \<and>
           pushed_after_post 0x0010
             (effects_of (OnClassicLinkDisconnected example_acl 0x0010 0x13 2000))"
    using classic by (auto simp: effects_of_def)
  have l: "posted_closures (effects_of (OnLeLinkDisconnected example_acl 0x0021 0x13 2000))
             = [cb_le_on_disconnected SUCCESS 0x0021 0x13] \<and>
           pushed_after_post 0x0021
             (effects_of (OnLeLinkDisconnected example_acl 0x0021 0x13 2000))"
    using le by (auto simp: effects_of_def)
  from mc dc ml dl v c l show ?thesis by simp
qed

end
